theory Spec2Isabelle
  imports Complex_Main "HOL-Library.AList" "HOL-Library.Sublist"
begin

section \<open>Vertex AI custom training jobs: the data model\<close>

text \<open>
  The development embeds \<^verbatim>\<open>prefect_gcp/aiplatform.py\<close>: the class
  \<^verbatim>\<open>VertexAICustomTrainingJob\<close> with its methods \<^verbatim>\<open>job_name\<close>,
  \<^verbatim>\<open>preview\<close>, \<^verbatim>\<open>_build_job_spec\<close>, \<^verbatim>\<open>_create_and_begin_job\<close>,
  \<^verbatim>\<open>_watch_job_run\<close>, \<^verbatim>\<open>run\<close>, \<^verbatim>\<open>kill\<close>, \<^verbatim>\<open>_kill_job\<close> and
  \<^verbatim>\<open>_log_prefix\<close>.

  Python strings are \<open>string\<close>, floats (seconds) are idealised as \<open>real\<close>, a dict is an
  association list in insertion order, \<open>None\<close> is \<open>None\<close>.
\<close>

subsection \<open>Job states and protocol messages of the client library\<close>

text \<open>The members of the client library's enumeration \<^verbatim>\<open>JobState\<close>.\<close>

datatype JobState =
    JOB_STATE_UNSPECIFIED
  | JOB_STATE_QUEUED
  | JOB_STATE_PENDING
  | JOB_STATE_RUNNING
  | JOB_STATE_SUCCEEDED
  | JOB_STATE_FAILED
  | JOB_STATE_CANCELLING
  | JOB_STATE_CANCELLED
  | JOB_STATE_PAUSED
  | JOB_STATE_EXPIRED
  | JOB_STATE_UPDATING

text \<open>\<^verbatim>\<open>state.name\<close>: the name of the enumeration member.\<close>

fun state_name :: "JobState \<Rightarrow> string" where
  "state_name JOB_STATE_UNSPECIFIED = ''JOB_STATE_UNSPECIFIED''"
| "state_name JOB_STATE_QUEUED = ''JOB_STATE_QUEUED''"
| "state_name JOB_STATE_PENDING = ''JOB_STATE_PENDING''"
| "state_name JOB_STATE_RUNNING = ''JOB_STATE_RUNNING''"
| "state_name JOB_STATE_SUCCEEDED = ''JOB_STATE_SUCCEEDED''"
| "state_name JOB_STATE_FAILED = ''JOB_STATE_FAILED''"
| "state_name JOB_STATE_CANCELLING = ''JOB_STATE_CANCELLING''"
| "state_name JOB_STATE_CANCELLED = ''JOB_STATE_CANCELLED''"
| "state_name JOB_STATE_PAUSED = ''JOB_STATE_PAUSED''"
| "state_name JOB_STATE_EXPIRED = ''JOB_STATE_EXPIRED''"
| "state_name JOB_STATE_UPDATING = ''JOB_STATE_UPDATING''"

text \<open>
  The messages the source builds. A field keeps the name it has in the client library,
  behind a prefix that tells the messages apart (\<open>cs\<close> for \<^verbatim>\<open>ContainerSpec\<close>,
  \<open>ms\<close> for \<^verbatim>\<open>MachineSpec\<close>, \<open>ds\<close> for \<^verbatim>\<open>DiskSpec\<close>, \<open>wps\<close> for
  \<^verbatim>\<open>WorkerPoolSpec\<close>, \<open>js\<close> for \<^verbatim>\<open>CustomJobSpec\<close>, \<open>cj\<close> for
  \<^verbatim>\<open>CustomJob\<close>). An entry \<^verbatim>\<open>{"name": n, "value": v}\<close> of the container
  environment is the pair \<open>(n, v)\<close>.
\<close>

record ContainerSpec =
  cs_image_uri :: string
  cs_command :: "string list option"
  cs_args :: "string list"
  cs_env :: "(string \<times> string) list"

record MachineSpec =
  ms_machine_type :: string
  ms_accelerator_type :: "string option"
  ms_accelerator_count :: "int option"

record DiskSpec =
  ds_boot_disk_type :: string
  ds_boot_disk_size_gb :: int

record WorkerPoolSpec =
  wps_container_spec :: ContainerSpec
  wps_machine_spec :: MachineSpec
  wps_replica_count :: int
  wps_disk_spec :: DiskSpec

text \<open>
  \<open>js_scheduling_timeout\<close> is the \<^verbatim>\<open>timeout\<close> of \<^verbatim>\<open>Scheduling\<close>: a duration in
  seconds, or \<open>None\<close>.
\<close>

record CustomJobSpec =
  js_worker_pool_specs :: "WorkerPoolSpec list"
  js_service_account :: string
  js_scheduling_timeout :: "real option"
  js_network :: "string option"
  js_reserved_ip_ranges :: "string list option"

text \<open>
  A \<^verbatim>\<open>CustomJob\<close> is both what is submitted (display name and spec; the other
  fields at their defaults) and what the service returns (with the full resource name,
  the state and \<^verbatim>\<open>error.message\<close>).
\<close>

record CustomJob =
  cj_name :: string
  cj_display_name :: string
  cj_job_spec :: "CustomJobSpec option"
  cj_state :: JobState
  cj_error_message :: string

subsection \<open>The block's configuration\<close>

text \<open>
  \<^verbatim>\<open>GcpCredentials\<close> as far as the source reads it: \<^verbatim>\<open>_service_account_email\<close>
  and \<^verbatim>\<open>project\<close>.
\<close>

record GcpCredentials =
  service_account_email :: "string option"
  project :: "string option"

text \<open>
  The fields of \<^verbatim>\<open>VertexAICustomTrainingJob\<close>. \<open>name\<close> and \<open>command\<close> are inherited
  from the base class \<^verbatim>\<open>Infrastructure\<close> (both optional there), and \<open>base_environment\<close>
  is what the inherited \<^verbatim>\<open>_base_environment()\<close> returns. \<open>maximum_run_time\<close> is the
  \<^verbatim>\<open>timedelta\<close> in seconds.
\<close>

record VertexAICustomTrainingJob =
  name :: "string option"
  command :: "string list option"
  base_environment :: "(string \<times> string) list"
  gcp_credentials :: GcpCredentials
  region :: string
  image :: string
  env :: "(string \<times> string) list"
  machine_type :: string
  accelerator_type :: "string option"
  accelerator_count :: "int option"
  boot_disk_type :: string
  boot_disk_size_gb :: int
  maximum_run_time :: real
  network :: "string option"
  reserved_ip_ranges :: "string list option"
  service_account :: "string option"
  job_watch_poll_interval :: real

record VertexAICustomTrainingJobResult =
  res_identifier :: string
  res_status_code :: int

subsection \<open>Exceptions\<close>

text \<open>
  \<open>RemoteError s\<close> is an exception raised by a method of the \<^verbatim>\<open>JobServiceClient\<close>,
  with \<open>s\<close> its \<^verbatim>\<open>str(exc)\<close>. The \<^verbatim>\<open>RuntimeError\<close> of the watch loop is
  \<open>RuntimeError_timed_out elapsed\<close>: its message is
  \<^verbatim>\<open>f"Timed out after {elapsed_time}s while watching job for states " "{until_states!r}"\<close>,
  and the model keeps the number instead of its decimal rendering.
  \<open>InfrastructureNotFound msg cause\<close> carries the exception it was raised from.
\<close>

datatype exn =
    ValueError string
  | TypeError string
  | UnboundLocalError string
  | RuntimeError string
  | RuntimeError_timed_out real
  | RemoteError string
  | InfrastructureNotFound string exn

subsection \<open>The outside world\<close>

text \<open>
  What the source calls and does not define is a parameter of the model:
  \<^item> \<open>uuid4_hex k\<close>: the value of the \<open>k\<close>-th evaluation of \<^verbatim>\<open>uuid4().hex\<close>;
  \<^item> \<open>create_custom_job parent job\<close>, \<open>get_custom_job k\<close> (the \<open>k\<close>-th poll: how long the call
    takes and what it gives), \<open>cancel_custom_job name\<close>: the scripted answers of the remote
    service;
  \<^item> \<open>repr\<close>: Python's \<^verbatim>\<open>repr\<close> on strings (the \<^verbatim>\<open>!r\<close> of an f-string);
  \<^item> \<open>str_CustomJob\<close>: \<^verbatim>\<open>str(custom_job)\<close>;
  \<^item> \<open>FromTimedelta\<close>: the value of \<^verbatim>\<open>Duration().FromTimedelta(td=...)\<close>.
\<close>

datatype 'a response = Raises string | Returns 'a

record extern =
  uuid4_hex :: "nat \<Rightarrow> string"
  create_custom_job :: "string \<Rightarrow> CustomJob \<Rightarrow> CustomJob response"
  get_custom_job :: "nat \<Rightarrow> real \<times> CustomJob response"
  cancel_custom_job :: "string \<Rightarrow> unit response"
  repr :: "string \<Rightarrow> string"
  str_CustomJob :: "CustomJob \<Rightarrow> string"
  FromTimedelta :: "real \<Rightarrow> real option"

text \<open>
  The effects of the source, as a state: the wall clock (\<^verbatim>\<open>time.time()\<close>), how many
  identifiers and polls were drawn, the log, the remote calls made, and the values handed
  to \<^verbatim>\<open>task_status.started\<close>.
\<close>

datatype level = DEBUG | INFO

datatype remote_call =
    CreateCustomJob string CustomJob
  | GetCustomJob string
  | CancelCustomJob string

record world =
  clock :: real
  uuids_drawn :: nat
  polls :: nat
  logged :: "(level \<times> string) list"
  calls :: "remote_call list"
  started :: "string list"

section \<open>Python's string and dict operations used by the source\<close>

text \<open>\<^verbatim>\<open>s.split(sep)\<close> for a separator of one character.\<close>

fun str_split :: "char \<Rightarrow> string \<Rightarrow> string list" where
  "str_split sep [] = [[]]"
| "str_split sep (c # cs) =
     (if c = sep then [] # str_split sep cs
      else (case str_split sep cs of [] \<Rightarrow> [[c]] | p # ps \<Rightarrow> (c # p) # ps))"

text \<open>\<^verbatim>\<open>sep.join(xs)\<close>.\<close>

fun str_join :: "string \<Rightarrow> string list \<Rightarrow> string" where
  "str_join sep [] = []"
| "str_join sep [x] = x"
| "str_join sep (x # y # ys) = x @ sep @ str_join sep (y # ys)"

text \<open>\<^verbatim>\<open>s.replace(old, new)\<close>: the occurrences of \<open>old\<close>, left to right, not overlapping.\<close>

fun str_replace :: "string \<Rightarrow> string \<Rightarrow> string \<Rightarrow> string" where
  "str_replace old new [] = (if old = [] then new else [])"
| "str_replace old new (c # cs) =
     (if old = [] then new @ c # str_replace old new cs
      else if prefix old (c # cs) then new @ str_replace old new (drop (length old) (c # cs))
      else c # str_replace old new cs)"

text \<open>\<^verbatim>\<open>s.lower()\<close> on ASCII text (the names of the job states).\<close>

definition lower_char :: "char \<Rightarrow> char" where
  "lower_char c =
     (let n = (of_char c :: nat) in if 65 \<le> n \<and> n \<le> 90 then char_of (n + 32) else c)"

definition str_lower :: "string \<Rightarrow> string" where
  "str_lower s = map lower_char s"

text \<open>\<^verbatim>\<open>str(x)\<close> of an optional string, as an f-string renders it.\<close>

definition str_optional :: "string option \<Rightarrow> string" where
  "str_optional x = (case x of None \<Rightarrow> ''None'' | Some s \<Rightarrow> s)"

text \<open>\<^verbatim>\<open>a or b\<close> on optional strings: \<open>None\<close> and the empty string are falsy.\<close>

definition py_or :: "string option \<Rightarrow> string option \<Rightarrow> string option" where
  "py_or a b = (case a of None \<Rightarrow> b | Some s \<Rightarrow> if s = [] then b else Some s)"

text \<open>
  \<^verbatim>\<open>{**base, **user}\<close>: the entries of \<open>user\<close> are stored into \<open>base\<close> one after the
  other; a key already there keeps its place and takes the new value, a new key goes
  to the end.
\<close>

definition dict_merge :: "('k \<times> 'v) list \<Rightarrow> ('k \<times> 'v) list \<Rightarrow> ('k \<times> 'v) list" where
  "dict_merge base user = fold (\<lambda>(k, v). AList.update k v) user base"

text \<open>\<^verbatim>\<open>time.sleep(d)\<close>: a negative length is refused, otherwise the clock moves on.\<close>

definition sleep :: "real \<Rightarrow> world \<Rightarrow> (exn + unit) \<times> world" where
  "sleep d w =
     (if d < 0 then (Inl (ValueError ''sleep length must be non-negative''), w)
      else (Inr (), w\<lparr>clock := clock w + d\<rparr>))"

definition logger :: "level \<Rightarrow> string \<Rightarrow> world \<Rightarrow> world" where
  "logger lvl msg w = w\<lparr>logged := logged w @ [(lvl, msg)]\<rparr>"

section \<open>The methods of the block\<close>

subsection \<open>\<^verbatim>\<open>_log_prefix\<close> and \<^verbatim>\<open>job_name\<close>\<close>

definition log_prefix :: "VertexAICustomTrainingJob \<Rightarrow> extern \<Rightarrow> string" where
  "log_prefix self ex =
     (case name self of
        Some n \<Rightarrow> ''VertexAICustomTrainingJob '' @ repr ex n
      | None \<Rightarrow> ''VertexAICustomTrainingJob'')"

text \<open>
  \<^verbatim>\<open>job_name\<close> is a property: every read splits the image reference again and draws a
  new \<^verbatim>\<open>uuid4().hex\<close>.
\<close>

definition job_name ::
  "VertexAICustomTrainingJob \<Rightarrow> extern \<Rightarrow> world \<Rightarrow> (exn + string) \<times> world" where
  "job_name self ex w =
     (let parts = str_split CHR ''/'' (image self) in
      if length parts \<le> 2
      then (Inl (ValueError (''The provided image must be from either Google Container Registry ''
                             @ ''or Google Artifact Registry'')), w)
      else
        let repo_name = parts ! 2;
            unique_suffix = uuid4_hex ex (uuids_drawn w)
        in (Inr (repo_name @ ''-'' @ unique_suffix), w\<lparr>uuids_drawn := Suc (uuids_drawn w)\<rparr>))"

subsection \<open>\<^verbatim>\<open>_build_job_spec\<close> and \<^verbatim>\<open>preview\<close>\<close>

text \<open>
  The messages are built as records. The constructors of the client library refuse some
  fields (an accelerator type that names no member of its enumeration, an integer beyond
  32 bits) and raise there, before the service account is looked for; \<open>build_job_spec\<close>
  speaks of the configurations whose fields the constructors accept, and no property
  below is stated about which exception spec building raises.
\<close>

definition build_job_spec :: "VertexAICustomTrainingJob \<Rightarrow> extern \<Rightarrow> exn + CustomJobSpec" where
  "build_job_spec self ex =
     (let env_list = dict_merge (base_environment self) (env self);
          container_spec = \<lparr>cs_image_uri = image self, cs_command = command self,
                            cs_args = [], cs_env = env_list\<rparr>;
          machine_spec = \<lparr>ms_machine_type = machine_type self,
                          ms_accelerator_type = accelerator_type self,
                          ms_accelerator_count = accelerator_count self\<rparr>;
          worker_pool_spec = \<lparr>wps_container_spec = container_spec,
                              wps_machine_spec = machine_spec,
                              wps_replica_count = 1,
                              wps_disk_spec = \<lparr>ds_boot_disk_type = boot_disk_type self,
                                               ds_boot_disk_size_gb = boot_disk_size_gb self\<rparr>\<rparr>
      in case py_or (service_account self) (service_account_email (gcp_credentials self)) of
           None \<Rightarrow>
             Inl (ValueError (''A service account is required for the Vertex job. ''
                  @ ''A service account could not be detected in the attached credentials; ''
                  @ ''please set a service account explicitly, e.g. ''
                  @ ''`VertexAICustomTrainingJob(service_acount='' @ [CHR 0x22] @ ''...''
                  @ [CHR 0x22] @ '')`''))
         | Some sa \<Rightarrow>
             Inr \<lparr>js_worker_pool_specs = [worker_pool_spec],
                  js_service_account = sa,
                  js_scheduling_timeout = FromTimedelta ex (maximum_run_time self),
                  js_network = network self,
                  js_reserved_ip_ranges = reserved_ip_ranges self\<rparr>)"

text \<open>\<^verbatim>\<open>CustomJob(display_name=..., job_spec=...)\<close>: the other fields at their defaults.\<close>

definition new_CustomJob :: "string \<Rightarrow> CustomJobSpec \<Rightarrow> CustomJob" where
  "new_CustomJob dn spec =
     \<lparr>cj_name = [], cj_display_name = dn, cj_job_spec = Some spec,
      cj_state = JOB_STATE_UNSPECIFIED, cj_error_message = []\<rparr>"

definition preview ::
  "VertexAICustomTrainingJob \<Rightarrow> extern \<Rightarrow> world \<Rightarrow> (exn + string) \<times> world" where
  "preview self ex w =
     (case build_job_spec self ex of
        Inl e \<Rightarrow> (Inl e, w)
      | Inr job_spec \<Rightarrow>
          (case job_name self ex w of
             (Inl e, w1) \<Rightarrow> (Inl e, w1)
           | (Inr dn, w1) \<Rightarrow> (Inr (str_CustomJob ex (new_CustomJob dn job_spec)), w1)))"

subsection \<open>\<^verbatim>\<open>_create_and_begin_job\<close>\<close>

text \<open>
  The display name of the submitted job is the first read of \<^verbatim>\<open>job_name\<close>; each of
  the two log lines reads the property again. \<^verbatim>\<open>' '.join(self.command)\<close> raises
  \<^verbatim>\<open>TypeError\<close> when the command is \<open>None\<close>. An exception of
  \<^verbatim>\<open>create_custom_job\<close> is not caught.
\<close>

definition create_and_begin_job ::
  "VertexAICustomTrainingJob \<Rightarrow> extern \<Rightarrow> CustomJobSpec \<Rightarrow> world \<Rightarrow> (exn + CustomJob) \<times> world"
where
  "create_and_begin_job self ex job_spec w =
     (case job_name self ex w of
        (Inl e, w1) \<Rightarrow> (Inl e, w1)
      | (Inr dn, w1) \<Rightarrow>
          let custom_job = new_CustomJob dn job_spec in
          (case job_name self ex w1 of
             (Inl e, w2) \<Rightarrow> (Inl e, w2)
           | (Inr jn, w2) \<Rightarrow>
               (case command self of
                  None \<Rightarrow> (Inl (TypeError ''can only join an iterable''), w2)
                | Some cmd \<Rightarrow>
                    let w3 = logger INFO
                               (log_prefix self ex @ '': Job '' @ repr ex jn
                                @ '' starting to run the command '' @ repr ex (str_join '' '' cmd)
                                @ '' in region '' @ repr ex (region self)
                                @ '' using image '' @ repr ex (image self)) w2;
                        resource_name = ''projects/'' @ str_optional (project (gcp_credentials self))
                                        @ ''/locations/'' @ region self;
                        w4 = w3\<lparr>calls := calls w3 @ [CreateCustomJob resource_name custom_job]\<rparr>
                    in (case create_custom_job ex resource_name custom_job of
                          Raises s \<Rightarrow> (Inl (RemoteError s), w4)
                        | Returns custom_job_run \<Rightarrow>
                            (case job_name self ex w4 of
                               (Inl e, w5) \<Rightarrow> (Inl e, w5)
                             | (Inr jn2, w5) \<Rightarrow>
                                 (Inr custom_job_run,
                                  logger INFO
                                    (log_prefix self ex @ '': Job '' @ repr ex jn2
                                     @ '' has successfully started; the full job name is ''
                                     @ repr ex (cj_name custom_job_run)) w5))))))"

subsection \<open>\<^verbatim>\<open>_watch_job_run\<close>\<close>

text \<open>
  \<^verbatim>\<open>state.name.replace("_", " ").lower().replace("state", "state is now:")\<close>
\<close>

definition state_label :: "JobState \<Rightarrow> string" where
  "state_label state =
     str_replace ''state'' ''state is now:''
       (str_lower (str_replace ''_'' '' '' (state_name state)))"

text \<open>
  One pass through the body of the \<^verbatim>\<open>while\<close> loop, from the poll to the sleep. It
  raises (\<open>Inl\<close>) or hands the loop the new values of \<^verbatim>\<open>state\<close>,
  \<^verbatim>\<open>last_state\<close> and \<^verbatim>\<open>job_run\<close>. The call of \<^verbatim>\<open>get_custom_job\<close> stands
  in no \<^verbatim>\<open>try\<close>.
\<close>

definition watch_iteration ::
  "VertexAICustomTrainingJob \<Rightarrow> extern \<Rightarrow> string \<Rightarrow> real option \<Rightarrow> real \<Rightarrow> JobState \<Rightarrow> world
   \<Rightarrow> (exn + JobState \<times> JobState \<times> CustomJob) \<times> world"
where
  "watch_iteration self ex full_job_name timeout t0 last_state w =
     (let (took, answer) = get_custom_job ex (polls w);
          w1 = w\<lparr>clock := clock w + took, polls := Suc (polls w),
                 calls := calls w @ [GetCustomJob full_job_name]\<rparr>
      in case answer of
           Raises s \<Rightarrow> (Inl (RemoteError s), w1)
         | Returns job_run \<Rightarrow>
             let state = cj_state job_run in
             (case (if state \<noteq> last_state
                    then (case job_name self ex w1 of
                            (Inl e, w2) \<Rightarrow> (Inl e, w2)
                          | (Inr jn, w2) \<Rightarrow>
                              (Inr state,
                               logger INFO (log_prefix self ex @ '': '' @ jn @ '' has new ''
                                            @ state_label state) w2))
                    else (Inr last_state,
                          logger DEBUG (log_prefix self ex @ '': Job not found.'') w1))
              of
                (Inl e, w2) \<Rightarrow> (Inl e, w2)
              | (Inr last_state', w2) \<Rightarrow>
                  let elapsed_time = clock w2 - t0 in
                  if (case timeout of None \<Rightarrow> False | Some t \<Rightarrow> elapsed_time > t)
                  then (Inl (RuntimeError_timed_out elapsed_time), w2)
                  else (case sleep (job_watch_poll_interval self) w2 of
                          (Inl e, w3) \<Rightarrow> (Inl e, w3)
                        | (Inr u, w3) \<Rightarrow> (Inr (state, last_state', job_run), w3))))"

text \<open>
  The loop. Its variables are \<^verbatim>\<open>state\<close>, \<^verbatim>\<open>last_state\<close> and \<^verbatim>\<open>job_run\<close>
  (unbound until the first pass). A loop that never ends has the value \<open>None\<close>.
\<close>

partial_function (option) watch_loop ::
  "VertexAICustomTrainingJob \<Rightarrow> extern \<Rightarrow> string \<Rightarrow> JobState list \<Rightarrow> real option \<Rightarrow> real
   \<Rightarrow> JobState \<times> JobState \<times> CustomJob option \<Rightarrow> world \<Rightarrow> ((exn + CustomJob) \<times> world) option"
where
  "watch_loop self ex full_job_name until_states timeout t0 vars w =
     (case vars of (state, last_state, job_run) \<Rightarrow>
        if state \<notin> set until_states
        then (case watch_iteration self ex full_job_name timeout t0 last_state w of
                (Inl e, w') \<Rightarrow> Some (Inl e, w')
              | (Inr (state', last_state', job_run'), w') \<Rightarrow>
                  watch_loop self ex full_job_name until_states timeout t0
                    (state', last_state', Some job_run') w')
        else (case job_run of
                None \<Rightarrow> Some (Inl (UnboundLocalError ''job_run''), w)
              | Some jr \<Rightarrow> Some (Inr jr, w)))"

definition watch_job_run ::
  "VertexAICustomTrainingJob \<Rightarrow> extern \<Rightarrow> string \<Rightarrow> JobState \<Rightarrow> JobState list \<Rightarrow> real option
   \<Rightarrow> world \<Rightarrow> ((exn + CustomJob) \<times> world) option"
where
  "watch_job_run self ex full_job_name current_state until_states timeout w =
     watch_loop self ex full_job_name until_states timeout (clock w)
       (JOB_STATE_UNSPECIFIED, current_state, None) w"

subsection \<open>\<^verbatim>\<open>run\<close>\<close>

text \<open>
  \<open>task_status\<close> tells whether the caller gave a \<^verbatim>\<open>TaskStatus\<close> (an object, hence
  truthy); \<open>notify_started\<close> is the statement \<^verbatim>\<open>if task_status: task_status.started(self.job_name)\<close>
  and \<open>until_states_of_run\<close> the tuple of states \<^verbatim>\<open>run\<close> waits for. The client comes from \<^verbatim>\<open>gcp_credentials.get_job_service_client\<close>, which
  belongs to the credentials block; the model starts where the client exists.
\<close>

definition notify_started ::
  "VertexAICustomTrainingJob \<Rightarrow> extern \<Rightarrow> bool \<Rightarrow> world \<Rightarrow> (exn + unit) \<times> world" where
  "notify_started self ex task_status w =
     (if task_status
      then (case job_name self ex w of
              (Inl e, w1) \<Rightarrow> (Inl e, w1)
            | (Inr jn, w1) \<Rightarrow> (Inr (), w1\<lparr>started := started w1 @ [jn]\<rparr>))
      else (Inr (), w))"

definition until_states_of_run :: "JobState list" where
  "until_states_of_run =
     [JOB_STATE_SUCCEEDED, JOB_STATE_FAILED, JOB_STATE_CANCELLED, JOB_STATE_EXPIRED]"

definition run ::
  "VertexAICustomTrainingJob \<Rightarrow> extern \<Rightarrow> bool \<Rightarrow> world
   \<Rightarrow> ((exn + VertexAICustomTrainingJobResult) \<times> world) option"
where
  "run self ex task_status w =
     (case build_job_spec self ex of
        Inl e \<Rightarrow> Some (Inl e, w)
      | Inr job_spec \<Rightarrow>
          (case create_and_begin_job self ex job_spec w of
             (Inl e, w1) \<Rightarrow> Some (Inl e, w1)
           | (Inr job_run, w1) \<Rightarrow>
               (case notify_started self ex task_status w1 of
                  (Inl e, w2) \<Rightarrow> Some (Inl e, w2)
                | (Inr u, w2) \<Rightarrow>
                    (case watch_job_run self ex (cj_name job_run) (cj_state job_run)
                            until_states_of_run (Some (maximum_run_time self)) w2
                     of
                       None \<Rightarrow> None
                     | Some (Inl e, w3) \<Rightarrow> Some (Inl e, w3)
                     | Some (Inr final_job_run, w3) \<Rightarrow>
                         (let error_msg = cj_error_message final_job_run in
                          if error_msg \<noteq> []
                          then Some (Inl (RuntimeError (log_prefix self ex @ '': '' @ error_msg)), w3)
                          else
                            let status_code =
                                  (if cj_state final_job_run = JOB_STATE_SUCCEEDED then 0 else 1)
                            in Some (Inr \<lparr>res_identifier = cj_display_name final_job_run,
                                          res_status_code = status_code\<rparr>, w3))))))"

subsection \<open>\<^verbatim>\<open>_kill_job\<close> and \<^verbatim>\<open>kill\<close>\<close>

definition kill_job ::
  "VertexAICustomTrainingJob \<Rightarrow> extern \<Rightarrow> string \<Rightarrow> world \<Rightarrow> (exn + unit) \<times> world" where
  "kill_job self ex full_job_name w =
     (let w1 = w\<lparr>calls := calls w @ [CancelCustomJob full_job_name]\<rparr> in
      case cancel_custom_job ex full_job_name of
        Returns u \<Rightarrow> (Inr (), w1)
      | Raises s \<Rightarrow>
          if sublist ''does not exist'' s
          then (Inl (InfrastructureNotFound
                       (''Cannot stop Vertex AI job; the job name '' @ repr ex full_job_name
                        @ '' could not be found.'')
                       (RemoteError s)), w1)
          else (Inl (RemoteError s), w1))"

definition kill ::
  "VertexAICustomTrainingJob \<Rightarrow> extern \<Rightarrow> string \<Rightarrow> int \<Rightarrow> world \<Rightarrow> (exn + unit) \<times> world" where
  "kill self ex ident grace_seconds w =
     (case kill_job self ex ident w of
        (Inl e, w1) \<Rightarrow> (Inl e, w1)
      | (Inr u, w1) \<Rightarrow> (Inr (), logger INFO (''Requested to cancel '' @ ident @ ''...'') w1))"

section \<open>Notions used to state the properties\<close>

text \<open>
  The image reference has the shape \<^verbatim>\<open><host>/<project>/<repo>[...]\<close>: at least three
  segments between slashes.
\<close>

definition image_has_repo :: "VertexAICustomTrainingJob \<Rightarrow> bool" where
  "image_has_repo self = (2 < length (str_split CHR ''/'' (image self)))"


section \<open>Scenarios\<close>

text \<open>The block of the module's own examples, with an environment and a service account.\<close>

definition example_job :: VertexAICustomTrainingJob where
  "example_job =
     \<lparr>name = None,
      command = Some [''echo'', ''hello world''],
      base_environment = [(''KEY'', ''base''), (''ONLY_BASE'', ''b'')],
      gcp_credentials = \<lparr>service_account_email = Some ''sa@proj.iam.gserviceaccount.com'',
                         project = Some ''proj''\<rparr>,
      region = ''us-east1'',
      image = ''us-docker.pkg.dev/cloudrun/container/job:latest'',
      env = [(''KEY'', ''override''), (''ONLY_USER'', ''u'')],
      machine_type = ''n1-standard-4'',
      accelerator_type = None,
      accelerator_count = None,
      boot_disk_type = ''pd-ssd'',
      boot_disk_size_gb = 100,
      maximum_run_time = 604800,
      network = None,
      reserved_ip_ranges = None,
      service_account = None,
      job_watch_poll_interval = 5\<rparr>"

text \<open>A snapshot of the job as a poll returns it.\<close>

definition snapshot :: "JobState \<Rightarrow> string \<Rightarrow> CustomJob" where
  "snapshot st msg =
     \<lparr>cj_name = ''projects/proj/locations/us-east1/customJobs/1'',
      cj_display_name = ''container-f'',
      cj_job_spec = None,
      cj_state = st,
      cj_error_message = msg\<rparr>"

text \<open>
  A scripted service: the \<open>k\<close>-th identifier is \<open>k + 1\<close> letters \<open>f\<close>; a submission is
  accepted and comes back queued under a full name; the polls answer from \<open>script\<close>, and
  \<open>rest\<close> once the script is used up; cancelling knows one running job, one job that is
  gone, and fails otherwise.
\<close>

definition scripted :: "(real \<times> CustomJob response) list \<Rightarrow> real \<times> CustomJob response \<Rightarrow> extern"
where
  "scripted script rest =
     \<lparr>uuid4_hex = (\<lambda>k. replicate (Suc k) CHR ''f''),
      create_custom_job =
        (\<lambda>parent job. Returns (job\<lparr>cj_name := parent @ ''/customJobs/1'',
                                    cj_state := JOB_STATE_QUEUED\<rparr>)),
      get_custom_job = (\<lambda>k. if k < length script then script ! k else rest),
      cancel_custom_job =
        (\<lambda>n. if n = ''projects/proj/locations/us-east1/customJobs/1'' then Returns ()
              else if n = ''projects/proj/locations/us-east1/customJobs/0''
              then Raises ''404 The CustomJob does not exist.''
              else Raises ''503 The service is currently unavailable.''),
      repr = (\<lambda>s. [CHR 0x27] @ s @ [CHR 0x27]),
      str_CustomJob = cj_display_name,
      FromTimedelta = (\<lambda>t. None)\<rparr>"

definition world0 :: world where
  "world0 = \<lparr>clock = 0, uuids_drawn = 0, polls = 0, logged = [], calls = [], started = []\<rparr>"

text \<open>A service whose polls all fail; for the scenarios that never poll.\<close>

definition quiet :: extern where
  "quiet = scripted [] (0, Raises [])"

text \<open>The same block with an image reference of one segment.\<close>

definition short_image_job :: VertexAICustomTrainingJob where
  "short_image_job = example_job\<lparr>image := ''ubuntu:22.04''\<rparr>"

text \<open>
  A service whose first poll shows the job running, whose second poll fails, and whose
  later polls would show the job succeeded.
\<close>

definition failing_poll :: extern where
  "failing_poll =
     scripted [(0, Returns (snapshot JOB_STATE_RUNNING [])),
               (0, Raises ''503 The service is currently unavailable.'')]
              (0, Returns (snapshot JOB_STATE_SUCCEEDED []))"


text \<open>A service whose one poll shows the job in the state \<open>st\<close> with the error message \<open>msg\<close>.\<close>

definition one_poll :: "JobState \<Rightarrow> string \<Rightarrow> extern" where
  "one_poll st msg = scripted [(0, Returns (snapshot st msg))] (0, Raises ''no further poll'')"

text \<open>A service whose polls show the job queued, queued, running and succeeded.\<close>

definition four_polls :: extern where
  "four_polls =
     scripted [(0, Returns (snapshot JOB_STATE_QUEUED [])),
               (0, Returns (snapshot JOB_STATE_QUEUED [])),
               (0, Returns (snapshot JOB_STATE_RUNNING [])),
               (0, Returns (snapshot JOB_STATE_SUCCEEDED []))]
              (0, Raises ''no further poll'')"

section \<open>Properties\<close>

subsection \<open>The steps of the methods\<close>

lemma job_name_ok:
  "image_has_repo self \<Longrightarrow>
   job_name self ex w =
     (Inr (str_split CHR ''/'' (image self) ! 2 @ ''-'' @ uuid4_hex ex (uuids_drawn w)),
      w\<lparr>uuids_drawn := Suc (uuids_drawn w)\<rparr>)"
  by (simp add: job_name_def image_has_repo_def Let_def)

lemma job_name_fail:
  "\<not> image_has_repo self \<Longrightarrow>
   job_name self ex w =
     (Inl (ValueError (''The provided image must be from either Google Container Registry ''
                       @ ''or Google Artifact Registry'')), w)"
  by (simp add: job_name_def image_has_repo_def Let_def)

lemma job_name_frame:
  "calls (snd (job_name self ex w)) = calls w \<and> polls (snd (job_name self ex w)) = polls w
   \<and> clock (snd (job_name self ex w)) = clock w \<and> logged (snd (job_name self ex w)) = logged w
   \<and> started (snd (job_name self ex w)) = started w"
  by (simp add: job_name_def Let_def)

lemma build_job_spec_ok:
  "py_or (service_account self) (service_account_email (gcp_credentials self)) = Some sa \<Longrightarrow>
   build_job_spec self ex =
     Inr \<lparr>js_worker_pool_specs =
            [\<lparr>wps_container_spec =
                 \<lparr>cs_image_uri = image self, cs_command = command self, cs_args = [],
                  cs_env = dict_merge (base_environment self) (env self)\<rparr>,
               wps_machine_spec =
                 \<lparr>ms_machine_type = machine_type self,
                  ms_accelerator_type = accelerator_type self,
                  ms_accelerator_count = accelerator_count self\<rparr>,
               wps_replica_count = 1,
               wps_disk_spec = \<lparr>ds_boot_disk_type = boot_disk_type self,
                                 ds_boot_disk_size_gb = boot_disk_size_gb self\<rparr>\<rparr>],
          js_service_account = sa,
          js_scheduling_timeout = FromTimedelta ex (maximum_run_time self),
          js_network = network self,
          js_reserved_ip_ranges = reserved_ip_ranges self\<rparr>"
  by (simp add: build_job_spec_def Let_def)

lemma create_and_begin_job_short:
  "\<not> image_has_repo self \<Longrightarrow>
   create_and_begin_job self ex spec w =
     (Inl (ValueError (''The provided image must be from either Google Container Registry ''
                       @ ''or Google Artifact Registry'')), w)"
  by (simp add: create_and_begin_job_def job_name_fail)

lemma create_and_begin_job_ok:
  assumes "image_has_repo self" and "command self = Some cmd"
      and "create_custom_job ex
             (''projects/'' @ str_optional (project (gcp_credentials self)) @ ''/locations/''
              @ region self)
             (new_CustomJob (str_split CHR ''/'' (image self) ! 2 @ ''-''
                             @ uuid4_hex ex (uuids_drawn w)) spec)
           = Returns jr"
  shows "create_and_begin_job self ex spec w =
     (Inr jr,
      w\<lparr>uuids_drawn := Suc (Suc (Suc (uuids_drawn w))),
        logged := logged w @
          [(INFO, log_prefix self ex @ '': Job ''
                  @ repr ex (str_split CHR ''/'' (image self) ! 2 @ ''-''
                             @ uuid4_hex ex (Suc (uuids_drawn w)))
                  @ '' starting to run the command '' @ repr ex (str_join '' '' cmd)
                  @ '' in region '' @ repr ex (region self)
                  @ '' using image '' @ repr ex (image self)),
           (INFO, log_prefix self ex @ '': Job ''
                  @ repr ex (str_split CHR ''/'' (image self) ! 2 @ ''-''
                             @ uuid4_hex ex (Suc (Suc (uuids_drawn w))))
                  @ '' has successfully started; the full job name is ''
                  @ repr ex (cj_name jr))],
        calls := calls w @
          [CreateCustomJob
             (''projects/'' @ str_optional (project (gcp_credentials self)) @ ''/locations/''
              @ region self)
             (new_CustomJob (str_split CHR ''/'' (image self) ! 2 @ ''-''
                             @ uuid4_hex ex (uuids_drawn w)) spec)]\<rparr>)"
  using assms by (simp add: create_and_begin_job_def job_name_ok logger_def Let_def)

lemma notify_started_ok:
  "image_has_repo self \<Longrightarrow>
   notify_started self ex True w =
     (Inr (), w\<lparr>uuids_drawn := Suc (uuids_drawn w),
                started := started w @ [str_split CHR ''/'' (image self) ! 2 @ ''-''
                                        @ uuid4_hex ex (uuids_drawn w)]\<rparr>)"
  by (simp add: notify_started_def job_name_ok)

lemma notify_started_off: "notify_started self ex False w = (Inr (), w)"
  by (simp add: notify_started_def)

lemma notify_started_fields:
  assumes "image_has_repo self"
  shows "\<exists>w'. notify_started self ex task_status w = (Inr (), w')
     \<and> clock w' = clock w \<and> polls w' = polls w \<and> logged w' = logged w
     \<and> uuids_drawn w' = uuids_drawn w + (if task_status then 1 else 0)"
  using notify_started_ok [OF assms, of ex w] notify_started_off [of self ex w]
  by (cases task_status) simp_all

lemma watch_iteration_raises:
  "get_custom_job ex (polls w) = (d, Raises s) \<Longrightarrow>
   watch_iteration self ex nm timeout t0 lst w =
     (Inl (RemoteError s),
      w\<lparr>clock := clock w + d, polls := Suc (polls w), calls := calls w @ [GetCustomJob nm]\<rparr>)"
  by (simp add: watch_iteration_def)

lemma watch_iteration_same:
  assumes "get_custom_job ex (polls w) = (d, Returns jr)"
      and "cj_state jr = lst"
      and "\<not> (case timeout of None \<Rightarrow> False | Some t \<Rightarrow> clock w + d - t0 > t)"
      and "0 \<le> job_watch_poll_interval self"
  shows "watch_iteration self ex nm timeout t0 lst w =
     (Inr (lst, lst, jr),
      w\<lparr>clock := clock w + d + job_watch_poll_interval self, polls := Suc (polls w),
        calls := calls w @ [GetCustomJob nm],
        logged := logged w @ [(DEBUG, log_prefix self ex @ '': Job not found.'')]\<rparr>)"
  using assms by (simp add: watch_iteration_def logger_def sleep_def)

lemma watch_iteration_change:
  assumes "get_custom_job ex (polls w) = (d, Returns jr)"
      and "cj_state jr \<noteq> lst"
      and "image_has_repo self"
      and "\<not> (case timeout of None \<Rightarrow> False | Some t \<Rightarrow> clock w + d - t0 > t)"
      and "0 \<le> job_watch_poll_interval self"
  shows "watch_iteration self ex nm timeout t0 lst w =
     (Inr (cj_state jr, cj_state jr, jr),
      w\<lparr>clock := clock w + d + job_watch_poll_interval self, polls := Suc (polls w),
        calls := calls w @ [GetCustomJob nm],
        uuids_drawn := Suc (uuids_drawn w),
        logged := logged w @ [(INFO, log_prefix self ex @ '': ''
                   @ (str_split CHR ''/'' (image self) ! 2 @ ''-'' @ uuid4_hex ex (uuids_drawn w))
                   @ '' has new '' @ state_label (cj_state jr))]\<rparr>)"
  using assms
  by (cases timeout) (simp_all add: watch_iteration_def logger_def sleep_def job_name_ok Let_def)

lemma watch_iteration_continue:
  assumes "get_custom_job ex (polls w) = (d, Returns jr)"
      and "image_has_repo self"
      and "\<not> (case timeout of None \<Rightarrow> False | Some t \<Rightarrow> clock w + d - t0 > t)"
      and "0 \<le> job_watch_poll_interval self"
  shows "\<exists>w'. watch_iteration self ex nm timeout t0 lst w = (Inr (cj_state jr, cj_state jr, jr), w')
     \<and> polls w' = Suc (polls w) \<and> clock w' = clock w + d + job_watch_poll_interval self"
proof (cases "cj_state jr = lst")
  case True
  then show ?thesis using watch_iteration_same [OF assms(1) True assms(3,4)] by simp
next
  case False
  then show ?thesis using watch_iteration_change [OF assms(1) False assms(2,3,4)] by simp
qed

lemma watch_iteration_timeout:
  assumes "get_custom_job ex (polls w) = (d, Returns jr)"
      and "image_has_repo self"
      and "T < clock w + d - t0"
  shows "\<exists>w'. watch_iteration self ex nm (Some T) t0 lst w
                = (Inl (RuntimeError_timed_out (clock w + d - t0)), w')
     \<and> polls w' = Suc (polls w) \<and> clock w' = clock w + d"
  using assms by (simp add: watch_iteration_def logger_def job_name_ok Let_def split: if_splits)

lemma watch_iteration_polls:
  "polls (snd (watch_iteration self ex nm timeout t0 lst w)) = Suc (polls w)"
  by (cases "get_custom_job ex (polls w)")
     (simp add: watch_iteration_def Let_def logger_def sleep_def job_name_def
           split: response.splits sum.splits prod.splits if_splits)

lemma watch_iteration_Inl:
  assumes "watch_iteration self ex nm timeout t0 lst w = (Inl e, w')"
      and "image_has_repo self" and "0 \<le> job_watch_poll_interval self"
  shows "(\<exists>T. timeout = Some T \<and> T < clock w' - t0 \<and> e = RuntimeError_timed_out (clock w' - t0))
         \<or> (\<exists>s. snd (get_custom_job ex (polls w)) = Raises s \<and> e = RemoteError s)"
proof -
  obtain d ans where g: "get_custom_job ex (polls w) = (d, ans)"
    by (cases "get_custom_job ex (polls w)")
  show ?thesis
  proof (cases ans)
    case (Raises s)
    with g assms(1) show ?thesis by (simp add: watch_iteration_raises)
  next
    case (Returns jr)
    with g have g': "get_custom_job ex (polls w) = (d, Returns jr)" by simp
    show ?thesis
    proof (cases "case timeout of None \<Rightarrow> False | Some t \<Rightarrow> clock w + d - t0 > t")
      case False
      from watch_iteration_continue [OF g' assms(2) False assms(3), of nm lst] assms(1)
      show ?thesis by auto
    next
      case True
      then obtain T where T: "timeout = Some T" "T < clock w + d - t0"
        by (cases timeout) auto
      from watch_iteration_timeout [OF g' assms(2) T(2), of nm lst] assms(1) T
      show ?thesis by auto
    qed
  qed
qed

lemma watch_iteration_same_fields:
  assumes "get_custom_job ex (polls w) = (d, Returns jr)"
      and "cj_state jr = lst"
      and "\<not> (case timeout of None \<Rightarrow> False | Some t \<Rightarrow> clock w + d - t0 > t)"
      and "0 \<le> job_watch_poll_interval self"
  shows "\<exists>w'. watch_iteration self ex nm timeout t0 lst w = (Inr (lst, lst, jr), w')
     \<and> clock w' = clock w + d + job_watch_poll_interval self
     \<and> polls w' = Suc (polls w) \<and> uuids_drawn w' = uuids_drawn w
     \<and> logged w' = logged w @ [(DEBUG, log_prefix self ex @ '': Job not found.'')]"
  using watch_iteration_same [OF assms, of nm] by simp

lemma watch_iteration_change_fields:
  assumes "get_custom_job ex (polls w) = (d, Returns jr)"
      and "cj_state jr \<noteq> lst"
      and "image_has_repo self"
      and "\<not> (case timeout of None \<Rightarrow> False | Some t \<Rightarrow> clock w + d - t0 > t)"
      and "0 \<le> job_watch_poll_interval self"
  shows "\<exists>w'. watch_iteration self ex nm timeout t0 lst w = (Inr (cj_state jr, cj_state jr, jr), w')
     \<and> clock w' = clock w + d + job_watch_poll_interval self
     \<and> polls w' = Suc (polls w) \<and> uuids_drawn w' = Suc (uuids_drawn w)
     \<and> logged w' = logged w @ [(INFO, log_prefix self ex @ '': ''
                   @ (str_split CHR ''/'' (image self) ! 2 @ ''-'' @ uuid4_hex ex (uuids_drawn w))
                   @ '' has new '' @ state_label (cj_state jr))]"
  using watch_iteration_change [OF assms, of nm] by simp

lemma watch_loop_done:
  "st \<in> set until \<Longrightarrow>
   watch_loop self ex nm until timeout t0 (st, lst, Some jr) w = Some (Inr jr, w)"
  by (subst watch_loop.simps) simp

lemma watch_loop_next:
  "st \<notin> set until \<Longrightarrow>
   watch_iteration self ex nm timeout t0 lst w = (Inr (st', lst', jr'), w') \<Longrightarrow>
   watch_loop self ex nm until timeout t0 (st, lst, jo) w =
   watch_loop self ex nm until timeout t0 (st', lst', Some jr') w'"
  by (subst watch_loop.simps) simp

lemma watch_loop_raise:
  "st \<notin> set until \<Longrightarrow>
   watch_iteration self ex nm timeout t0 lst w = (Inl e, w') \<Longrightarrow>
   watch_loop self ex nm until timeout t0 (st, lst, jo) w = Some (Inl e, w')"
  by (subst watch_loop.simps) simp

lemma run_after_watch:
  assumes "build_job_spec self ex = Inr spec"
      and "create_and_begin_job self ex spec w = (Inr jr, w1)"
      and "notify_started self ex task_status w1 = (Inr (), w2)"
      and "watch_job_run self ex (cj_name jr) (cj_state jr) until_states_of_run
             (Some (maximum_run_time self)) w2 = Some (Inr fjr, w3)"
  shows "run self ex task_status w =
     Some (if cj_error_message fjr \<noteq> []
           then Inl (RuntimeError (log_prefix self ex @ '': '' @ cj_error_message fjr))
           else Inr \<lparr>res_identifier = cj_display_name fjr,
                     res_status_code = (if cj_state fjr = JOB_STATE_SUCCEEDED then 0 else 1)\<rparr>,
           w3)"
  using assms by (simp add: run_def Let_def)

lemma run_returns:
  assumes "run self ex task_status w = Some (Inr res, w')"
  shows "\<exists>spec jr w1 w2 fjr.
           build_job_spec self ex = Inr spec
         \<and> create_and_begin_job self ex spec w = (Inr jr, w1)
         \<and> notify_started self ex task_status w1 = (Inr (), w2)
         \<and> watch_job_run self ex (cj_name jr) (cj_state jr) until_states_of_run
              (Some (maximum_run_time self)) w2 = Some (Inr fjr, w')
         \<and> cj_error_message fjr = []
         \<and> res = \<lparr>res_identifier = cj_display_name fjr,
                   res_status_code = (if cj_state fjr = JOB_STATE_SUCCEEDED then 0 else 1)\<rparr>"
proof -
  from assms obtain spec where b: "build_job_spec self ex = Inr spec"
    by (cases "build_job_spec self ex") (simp_all add: run_def)
  obtain r1 w1 where c0: "create_and_begin_job self ex spec w = (r1, w1)"
    by (cases "create_and_begin_job self ex spec w")
  with assms b obtain jr where c: "create_and_begin_job self ex spec w = (Inr jr, w1)"
    by (cases r1) (simp_all add: run_def)
  obtain r2 w2 where n0: "notify_started self ex task_status w1 = (r2, w2)"
    by (cases "notify_started self ex task_status w1")
  with assms b c have n: "notify_started self ex task_status w1 = (Inr (), w2)"
    by (cases r2) (simp_all add: run_def)
  let ?watch = "watch_job_run self ex (cj_name jr) (cj_state jr) until_states_of_run
                  (Some (maximum_run_time self)) w2"
  from assms b c n obtain r3 w3 where w0: "?watch = Some (r3, w3)"
    by (cases ?watch) (auto simp: run_def)
  with assms b c n obtain fjr where wt: "?watch = Some (Inr fjr, w3)"
    by (cases r3) (simp_all add: run_def)
  from run_after_watch [OF b c n wt] assms
  have "cj_error_message fjr = []" and "w' = w3"
    and "res = \<lparr>res_identifier = cj_display_name fjr,
                res_status_code = (if cj_state fjr = JOB_STATE_SUCCEEDED then 0 else 1)\<rparr>"
    by (auto split: if_splits)
  with b c n wt show ?thesis by blast
qed

subsection \<open>Facts about the scenarios\<close>

lemma scripted_sel:
  "uuid4_hex (scripted script rest) k = replicate (Suc k) CHR ''f''"
  "get_custom_job (scripted script rest) k = (if k < length script then script ! k else rest)"
  "repr (scripted script rest) s = [CHR 0x27] @ s @ [CHR 0x27]"
  "create_custom_job (scripted script rest) parent job =
     Returns (job\<lparr>cj_name := parent @ ''/customJobs/1'', cj_state := JOB_STATE_QUEUED\<rparr>)"
  by (simp_all add: scripted_def)

lemma example_sel:
  "name example_job = None"
  "command example_job = Some [''echo'', ''hello world'']"
  "region example_job = ''us-east1''"
  "image example_job = ''us-docker.pkg.dev/cloudrun/container/job:latest''"
  "project (gcp_credentials example_job) = Some ''proj''"
  "maximum_run_time example_job = 604800"
  "job_watch_poll_interval example_job = 5"
  by (simp_all add: example_job_def)

lemma example_identity:
  "py_or (service_account example_job) (service_account_email (gcp_credentials example_job))
   = Some ''sa@proj.iam.gserviceaccount.com''"
  by (simp add: example_job_def py_or_def)

lemma example_image: "image_has_repo example_job"
  by (simp add: image_has_repo_def example_job_def)

lemma example_repo: "str_split CHR ''/'' (image example_job) ! 2 = ''container''"
  by (simp add: example_sel)

lemma example_prefix: "log_prefix example_job ex = ''VertexAICustomTrainingJob''"
  by (simp add: log_prefix_def example_sel)

lemma label_running: "state_label JOB_STATE_RUNNING = ''job state is now: running''"
  by code_simp

lemma label_succeeded: "state_label JOB_STATE_SUCCEEDED = ''job state is now: succeeded''"
  by code_simp

lemma unspecified_not_awaited: "JOB_STATE_UNSPECIFIED \<notin> set until_states_of_run"
  by (simp add: until_states_of_run_def)

lemma awaited_states:
  "JOB_STATE_SUCCEEDED \<in> set until_states_of_run" "JOB_STATE_FAILED \<in> set until_states_of_run"
  "JOB_STATE_CANCELLED \<in> set until_states_of_run" "JOB_STATE_EXPIRED \<in> set until_states_of_run"
  by (simp_all add: until_states_of_run_def)

lemma short_image_segments: "length (str_split CHR ''/'' (image short_image_job)) < 3"
  by (simp add: short_image_job_def)

lemma short_image_identity:
  "py_or (service_account short_image_job) (service_account_email (gcp_credentials short_image_job))
   = Some ''sa@proj.iam.gserviceaccount.com''"
  by (simp add: short_image_job_def example_job_def py_or_def)

lemma gone_text: "sublist ''does not exist'' ''404 The CustomJob does not exist.''"
  by code_simp

lemma unavailable_text:
  "\<not> sublist ''does not exist'' ''503 The service is currently unavailable.''"
  by code_simp

lemma four_polls_sel:
  "get_custom_job four_polls (polls world0) = (0, Returns (snapshot JOB_STATE_QUEUED []))"
  "get_custom_job four_polls (polls world0 + 1) = (0, Returns (snapshot JOB_STATE_QUEUED []))"
  "get_custom_job four_polls (polls world0 + 2) = (0, Returns (snapshot JOB_STATE_RUNNING []))"
  "get_custom_job four_polls (polls world0 + 3) = (0, Returns (snapshot JOB_STATE_SUCCEEDED []))"
  "uuid4_hex four_polls 3 = ''ffff''" "uuid4_hex four_polls 4 = ''fffff''"
  by (simp_all add: four_polls_def scripted_sel world0_def eval_nat_numeral)

subsection \<open>The container environment\<close>

lemma dict_merge_lookup:
  "distinct (map fst user) \<Longrightarrow> map_of (dict_merge base user) = map_of base ++ map_of user"
  unfolding dict_merge_def
proof (induction user arbitrary: base)
  case Nil
  then show ?case by simp
next
  case (Cons p user)
  obtain k v where p: "p = (k, v)" by (cases p)
  from Cons.prems p have nk: "k \<notin> fst ` set user" and d: "distinct (map fst user)" by auto
  have none: "map_of user k = None" using nk by (simp add: map_of_eq_None_iff)
  have a: "fold (\<lambda>(k, v). AList.update k v) (p # user) base
           = fold (\<lambda>(k, v). AList.update k v) user (AList.update k v base)"
    by (simp add: p)
  have b: "map_of (fold (\<lambda>(k, v). AList.update k v) user (AList.update k v base))
           = map_of (AList.update k v base) ++ map_of user"
    by (rule Cons.IH [OF d])
  have c: "map_of (AList.update k v base) ++ map_of user = map_of base ++ map_of (p # user)"
    using none by (auto simp: fun_eq_iff map_add_def update_conv' p split: option.splits)
  show ?case by (simp only: a b c)
qed

lemma dict_merge_distinct:
  "distinct (map fst base) \<Longrightarrow> distinct (map fst (dict_merge base user))"
  unfolding dict_merge_def
  by (induction user arbitrary: base) (auto simp: distinct_update)

text \<open>
  Claim C5. The container environment of the built spec is the base environment overlaid
  with the user's: whenever a service identity resolves, the spec is built, it has one
  worker pool, and looking a key up in its environment gives the user's value where the
  user's environment has the key and the base environment's value (or nothing) where it
  has not; so \<open>KEY=override\<close> wins over \<open>KEY=base\<close>. Each key occurs once when it
  occurs once in the base environment.
\<close>

theorem build_job_spec_environment:
  assumes "py_or (service_account self) (service_account_email (gcp_credentials self)) = Some sa"
      and "distinct (map fst (env self))"
  shows "\<exists>spec wps. build_job_spec self ex = Inr spec \<and> js_worker_pool_specs spec = [wps]
           \<and> (\<forall>k. map_of (cs_env (wps_container_spec wps)) k
                    = (case map_of (env self) k of
                         Some v \<Rightarrow> Some v
                       | None \<Rightarrow> map_of (base_environment self) k))
           \<and> (distinct (map fst (base_environment self))
                \<longrightarrow> distinct (map fst (cs_env (wps_container_spec wps))))"
  using build_job_spec_ok [OF assms(1), of ex] dict_merge_lookup [OF assms(2)]
  by (simp add: map_add_def dict_merge_distinct)

theorem build_job_spec_environment_witness:
  "\<exists>spec wps. build_job_spec example_job quiet = Inr spec \<and> js_worker_pool_specs spec = [wps]
     \<and> map_of (cs_env (wps_container_spec wps)) ''KEY'' = Some ''override''
     \<and> map_of (cs_env (wps_container_spec wps)) ''ONLY_BASE'' = Some ''b''
     \<and> map_of (cs_env (wps_container_spec wps)) ''ONLY_USER'' = Some ''u''
     \<and> distinct (map fst (cs_env (wps_container_spec wps)))"
proof -
  have d: "distinct (map fst (env example_job))"
    by (simp add: example_job_def)
  from build_job_spec_environment [OF example_identity d, of quiet]
  obtain spec wps where s: "build_job_spec example_job quiet = Inr spec"
      "js_worker_pool_specs spec = [wps]"
    and l: "\<And>k. map_of (cs_env (wps_container_spec wps)) k
                    = (case map_of (env example_job) k of
                         Some v \<Rightarrow> Some v
                       | None \<Rightarrow> map_of (base_environment example_job) k)"
    and dd: "distinct (map fst (base_environment example_job))
                \<longrightarrow> distinct (map fst (cs_env (wps_container_spec wps)))"
    by blast
  have "map_of (cs_env (wps_container_spec wps)) ''KEY'' = Some ''override''"
       "map_of (cs_env (wps_container_spec wps)) ''ONLY_BASE'' = Some ''b''"
       "map_of (cs_env (wps_container_spec wps)) ''ONLY_USER'' = Some ''u''"
    by (simp_all add: l example_job_def)
  moreover have "distinct (map fst (cs_env (wps_container_spec wps)))"
    using dd by (simp add: example_job_def)
  ultimately show ?thesis using s by blast
qed

subsection \<open>Cancelling\<close>

text \<open>
  Claim C3. \<^verbatim>\<open>kill(identifier)\<close> makes one cancel call. When the call returns, \<open>kill\<close>
  raises nothing; when it raises an exception whose text contains \<^verbatim>\<open>does not exist\<close>,
  \<open>kill\<close> raises \<^verbatim>\<open>InfrastructureNotFound\<close> (the spec's \<^verbatim>\<open>JobNotFoundError\<close>) from
  it; when it raises any other exception, \<open>kill\<close> raises that exception unchanged (the
  spec's \<^verbatim>\<open>CancellationError\<close>).
\<close>

theorem kill_outcomes:
  "(cancel_custom_job ex ident = Returns () \<longrightarrow> fst (kill self ex ident grace_seconds w) = Inr ())
   \<and> (\<forall>s. cancel_custom_job ex ident = Raises s \<and> sublist ''does not exist'' s
          \<longrightarrow> fst (kill self ex ident grace_seconds w)
              = Inl (InfrastructureNotFound
                       (''Cannot stop Vertex AI job; the job name '' @ repr ex ident
                        @ '' could not be found.'') (RemoteError s)))
   \<and> (\<forall>s. cancel_custom_job ex ident = Raises s \<and> \<not> sublist ''does not exist'' s
          \<longrightarrow> fst (kill self ex ident grace_seconds w) = Inl (RemoteError s))
   \<and> calls (snd (kill self ex ident grace_seconds w)) = calls w @ [CancelCustomJob ident]"
  by (cases "cancel_custom_job ex ident") (simp_all add: kill_def kill_job_def Let_def logger_def)

theorem kill_outcomes_witness:
  "fst (kill example_job quiet ''projects/proj/locations/us-east1/customJobs/1'' 30 world0) = Inr ()
   \<and> fst (kill example_job quiet ''projects/proj/locations/us-east1/customJobs/0'' 30 world0)
       = Inl (InfrastructureNotFound
                (''Cannot stop Vertex AI job; the job name ''
                 @ repr quiet ''projects/proj/locations/us-east1/customJobs/0''
                 @ '' could not be found.'')
                (RemoteError ''404 The CustomJob does not exist.''))
   \<and> fst (kill example_job quiet ''projects/proj/locations/us-east1/customJobs/7'' 30 world0)
       = Inl (RemoteError ''503 The service is currently unavailable.'')"
proof -
  have c1: "cancel_custom_job quiet ''projects/proj/locations/us-east1/customJobs/1'' = Returns ()"
    and c0: "cancel_custom_job quiet ''projects/proj/locations/us-east1/customJobs/0''
             = Raises ''404 The CustomJob does not exist.''"
    and c7: "cancel_custom_job quiet ''projects/proj/locations/us-east1/customJobs/7''
             = Raises ''503 The service is currently unavailable.''"
    by (simp_all add: quiet_def scripted_def)
  show ?thesis
    using kill_outcomes [of quiet "''projects/proj/locations/us-east1/customJobs/1''" example_job 30 world0]
          kill_outcomes [of quiet "''projects/proj/locations/us-east1/customJobs/0''" example_job 30 world0]
          kill_outcomes [of quiet "''projects/proj/locations/us-east1/customJobs/7''" example_job 30 world0]
          c1 c0 c7 gone_text unavailable_text
    by simp
qed

subsection \<open>The preview\<close>

text \<open>
  Claim C9. \<^verbatim>\<open>preview()\<close> makes no remote call, whatever the configuration: the list of
  remote calls and the number of polls are as before. For a configuration with a service
  identity and an image reference of at least three segments it returns the rendering of
  the job that would be submitted: the built spec under a newly drawn display name.
\<close>

theorem preview_makes_no_remote_call:
  "calls (snd (preview self ex w)) = calls w
   \<and> polls (snd (preview self ex w)) = polls w
   \<and> (\<forall>sa. py_or (service_account self) (service_account_email (gcp_credentials self)) = Some sa
            \<and> image_has_repo self
        \<longrightarrow> (\<exists>spec. build_job_spec self ex = Inr spec
              \<and> fst (preview self ex w)
                  = Inr (str_CustomJob ex
                          (new_CustomJob (str_split CHR ''/'' (image self) ! 2 @ ''-''
                                          @ uuid4_hex ex (uuids_drawn w)) spec))))"
proof -
  have frame: "calls (snd (preview self ex w)) = calls w \<and> polls (snd (preview self ex w)) = polls w"
    using job_name_frame [of self ex w]
    by (cases "build_job_spec self ex"; cases "job_name self ex w"; cases "fst (job_name self ex w)")
       (simp_all add: preview_def)
  have "fst (preview self ex w)
          = Inr (str_CustomJob ex
                  (new_CustomJob (str_split CHR ''/'' (image self) ! 2 @ ''-''
                                  @ uuid4_hex ex (uuids_drawn w)) spec))"
    if "build_job_spec self ex = Inr spec" and "image_has_repo self" for spec
    using that by (simp add: preview_def job_name_ok)
  then show ?thesis
    using frame build_job_spec_ok [of self _ ex] by blast
qed

theorem preview_makes_no_remote_call_witness:
  "calls (snd (preview example_job quiet world0)) = []
   \<and> (\<exists>spec. build_job_spec example_job quiet = Inr spec
         \<and> fst (preview example_job quiet world0)
             = Inr (str_CustomJob quiet (new_CustomJob ''container-f'' spec)))"
proof -
  have "str_split CHR ''/'' (image example_job) ! 2 @ ''-'' @ uuid4_hex quiet (uuids_drawn world0)
        = ''container-f''"
    by (simp add: example_job_def quiet_def scripted_def world0_def)
  then show ?thesis
    using preview_makes_no_remote_call [of example_job quiet world0] example_identity example_image
    by (simp add: world0_def)
qed

subsection \<open>Image references of fewer than three segments\<close>

text \<open>
  Claim C4, as the source has it. For an image reference of fewer than three segments the
  display name is refused with \<^verbatim>\<open>ValueError\<close> (the spec's \<^verbatim>\<open>ConfigurationError\<close>)
  and nothing else happens; the submission step fails with that error at its first read of
  the display name, before the create call, whatever the spec; and \<^verbatim>\<open>preview()\<close> and
  \<^verbatim>\<open>run()\<close> fail with the list of remote calls as it was. Spec building is not among
  the things that fail on such a reference.
\<close>

theorem short_image_is_refused_before_any_remote_call:
  assumes "length (str_split CHR ''/'' (image self)) < 3"
  shows "job_name self ex w =
           (Inl (ValueError (''The provided image must be from either Google Container Registry ''
                             @ ''or Google Artifact Registry'')), w)
       \<and> (\<forall>spec. create_and_begin_job self ex spec w =
           (Inl (ValueError (''The provided image must be from either Google Container Registry ''
                             @ ''or Google Artifact Registry'')), w))
       \<and> (\<exists>e w'. preview self ex w = (Inl e, w') \<and> calls w' = calls w)
       \<and> (\<exists>e w'. run self ex task_status w = Some (Inl e, w') \<and> calls w' = calls w)"
proof -
  from assms have short: "\<not> image_has_repo self"
    by (simp add: image_has_repo_def)
  have p: "\<exists>e w'. preview self ex w = (Inl e, w') \<and> calls w' = calls w"
  proof (cases "build_job_spec self ex")
    case (Inl e)
    then show ?thesis by (simp add: preview_def)
  next
    case (Inr spec)
    then show ?thesis by (simp add: preview_def job_name_fail [OF short])
  qed
  have r: "\<exists>e w'. run self ex task_status w = Some (Inl e, w') \<and> calls w' = calls w"
  proof (cases "build_job_spec self ex")
    case (Inl e)
    then show ?thesis by (simp add: run_def)
  next
    case (Inr spec)
    then show ?thesis by (simp add: run_def create_and_begin_job_short [OF short])
  qed
  have c: "\<forall>spec. create_and_begin_job self ex spec w =
           (Inl (ValueError (''The provided image must be from either Google Container Registry ''
                             @ ''or Google Artifact Registry'')), w)"
    using create_and_begin_job_short [OF short, of ex _ w] by blast
  show ?thesis
    using job_name_fail [OF short, of ex w] c p r
    apply -
    apply (intro conjI; assumption)
    done
qed

theorem short_image_is_refused_before_any_remote_call_witness:
  "length (str_split CHR ''/'' (image short_image_job)) < 3
   \<and> job_name short_image_job quiet world0 =
           (Inl (ValueError (''The provided image must be from either Google Container Registry ''
                             @ ''or Google Artifact Registry'')), world0)
   \<and> (\<forall>spec. create_and_begin_job short_image_job quiet spec world0 =
           (Inl (ValueError (''The provided image must be from either Google Container Registry ''
                             @ ''or Google Artifact Registry'')), world0))
   \<and> (\<exists>e w'. preview short_image_job quiet world0 = (Inl e, w') \<and> calls w' = [])
   \<and> (\<exists>e w'. run short_image_job quiet True world0 = Some (Inl e, w') \<and> calls w' = [])"
proof -
  have c0: "calls world0 = []"
    by (simp add: world0_def)
  show ?thesis
    using short_image_is_refused_before_any_remote_call
            [OF short_image_segments, of quiet world0 True]
          short_image_segments
    unfolding c0 by blast
qed

text \<open>
  The claim as stated fails: for the image reference \<^verbatim>\<open>ubuntu:22.04\<close>, of one segment,
  the spec is built.
\<close>

theorem short_image_spec_is_built:
  "length (str_split CHR ''/'' (image short_image_job)) < 3
   \<and> build_job_spec short_image_job quiet =
       Inr \<lparr>js_worker_pool_specs =
              [\<lparr>wps_container_spec =
                   \<lparr>cs_image_uri = ''ubuntu:22.04'', cs_command = Some [''echo'', ''hello world''],
                    cs_args = [],
                    cs_env = [(''KEY'', ''override''), (''ONLY_BASE'', ''b''), (''ONLY_USER'', ''u'')]\<rparr>,
                 wps_machine_spec =
                   \<lparr>ms_machine_type = ''n1-standard-4'', ms_accelerator_type = None,
                    ms_accelerator_count = None\<rparr>,
                 wps_replica_count = 1,
                 wps_disk_spec = \<lparr>ds_boot_disk_type = ''pd-ssd'', ds_boot_disk_size_gb = 100\<rparr>\<rparr>],
            js_service_account = ''sa@proj.iam.gserviceaccount.com'',
            js_scheduling_timeout = None,
            js_network = None,
            js_reserved_ip_ranges = None\<rparr>"
  using build_job_spec_ok [OF short_image_identity, of quiet] short_image_segments
  by (simp add: short_image_job_def example_job_def quiet_def scripted_def dict_merge_def)

subsection \<open>How the watch ends abnormally\<close>

lemma watch_loop_abnormal:
  assumes run: "watch_loop self ex nm until timeout t0 vars w = Some y"
  shows "image_has_repo self \<longrightarrow> 0 \<le> job_watch_poll_interval self
     \<longrightarrow> (fst vars \<notin> set until \<or> snd (snd vars) \<noteq> None)
     \<longrightarrow> (\<forall>e. fst y = Inl e
           \<longrightarrow> polls w < polls (snd y)
             \<and> ((\<exists>T. timeout = Some T \<and> T < clock (snd y) - t0
                      \<and> e = RuntimeError_timed_out (clock (snd y) - t0))
                 \<or> (\<exists>s. snd (get_custom_job ex (polls (snd y) - 1)) = Raises s
                         \<and> e = RemoteError s)))"
proof (rule watch_loop.raw_induct
    [where P = "\<lambda>self ex nm until timeout t0 vars w y.
       image_has_repo self \<longrightarrow> 0 \<le> job_watch_poll_interval self
       \<longrightarrow> (fst vars \<notin> set until \<or> snd (snd vars) \<noteq> None)
       \<longrightarrow> (\<forall>e. fst y = Inl e
           \<longrightarrow> polls w < polls (snd y)
             \<and> ((\<exists>T. timeout = Some T \<and> T < clock (snd y) - t0
                      \<and> e = RuntimeError_timed_out (clock (snd y) - t0))
                 \<or> (\<exists>s. snd (get_custom_job ex (polls (snd y) - 1)) = Raises s
                         \<and> e = RemoteError s)))",
     OF _ run], goal_cases)
  case (1 loop self ex nm until timeout t0 vars w y)
  note IH = "1"(1) and body = "1"(2)
  obtain st lst jo where vars: "vars = (st, lst, jo)" by (cases vars)
  show ?case
  proof (intro impI allI)
    fix e
    assume ok: "image_has_repo self" and nn: "0 \<le> job_watch_poll_interval self"
      and pre: "fst vars \<notin> set until \<or> snd (snd vars) \<noteq> None"
      and ye: "fst y = Inl e"
    show "polls w < polls (snd y)
       \<and> ((\<exists>T. timeout = Some T \<and> T < clock (snd y) - t0
                \<and> e = RuntimeError_timed_out (clock (snd y) - t0))
           \<or> (\<exists>s. snd (get_custom_job ex (polls (snd y) - 1)) = Raises s \<and> e = RemoteError s))"
    proof (cases "st \<in> set until")
      case True
      with pre vars obtain jr where "jo = Some jr" by auto
      with body vars True have "y = (Inr jr, w)" by simp
      with ye show ?thesis by simp
    next
      case False
      obtain r w1 where it: "watch_iteration self ex nm timeout t0 lst w = (r, w1)"
        by (cases "watch_iteration self ex nm timeout t0 lst w")
      have p1: "polls w1 = Suc (polls w)"
        using watch_iteration_polls [of self ex nm timeout t0 lst w] it by simp
      show ?thesis
      proof (cases r)
        case (Inl e')
        with body vars False it have y: "y = (Inl e', w1)" by simp
        with ye have "e' = e" by simp
        with watch_iteration_Inl [OF it [unfolded Inl] ok nn] y p1
        show ?thesis by simp
      next
        case (Inr v)
        obtain st' lst' jr' where v: "v = (st', lst', jr')" by (cases v)
        from body vars False it Inr v
        have rec: "loop self ex nm until timeout t0 (st', lst', Some jr') w1 = Some y" by simp
        from IH [OF rec] ok nn ye
        show ?thesis using p1 by auto
      qed
    qed
  qed
qed

lemma failing_poll_watch:
  "watch_job_run example_job failing_poll ''projects/proj/locations/us-east1/customJobs/1''
     JOB_STATE_QUEUED until_states_of_run None world0
   = Some (Inl (RemoteError ''503 The service is currently unavailable.''),
           \<lparr>clock = 5, uuids_drawn = 1, polls = 2,
            logged = [(INFO, ''VertexAICustomTrainingJob: container-f has new job state is now: running'')],
            calls = [GetCustomJob ''projects/proj/locations/us-east1/customJobs/1'',
                     GetCustomJob ''projects/proj/locations/us-east1/customJobs/1''],
            started = []\<rparr>)"
proof -
  let ?nm = "''projects/proj/locations/us-east1/customJobs/1''"
  let ?w1 = "\<lparr>clock = 5, uuids_drawn = 1, polls = 1,
            logged = [(INFO, ''VertexAICustomTrainingJob: container-f has new job state is now: running'')],
            calls = [GetCustomJob ?nm], started = []\<rparr>"
  have g0: "get_custom_job failing_poll (polls world0) = (0, Returns (snapshot JOB_STATE_RUNNING []))"
    by (simp add: failing_poll_def scripted_sel world0_def)
  have g1: "get_custom_job failing_poll (polls ?w1)
            = (0, Raises ''503 The service is currently unavailable.'')"
    by (simp add: failing_poll_def scripted_sel)
  have ch: "cj_state (snapshot JOB_STATE_RUNNING []) \<noteq> JOB_STATE_QUEUED"
    by (simp add: snapshot_def)
  have it0: "watch_iteration example_job failing_poll ?nm None 0 JOB_STATE_QUEUED world0
             = (Inr (JOB_STATE_RUNNING, JOB_STATE_RUNNING, snapshot JOB_STATE_RUNNING []), ?w1)"
    using watch_iteration_change [OF g0 ch example_image, where timeout = None and ?t0.0 = 0 and nm = ?nm]
    by (simp add: example_sel example_prefix label_running failing_poll_def scripted_sel
          world0_def snapshot_def)
  have it1: "watch_iteration example_job failing_poll ?nm None 0 JOB_STATE_RUNNING ?w1
             = (Inl (RemoteError ''503 The service is currently unavailable.''),
                \<lparr>clock = 5, uuids_drawn = 1, polls = 2,
                 logged = [(INFO, ''VertexAICustomTrainingJob: container-f has new job state is now: running'')],
                 calls = [GetCustomJob ?nm, GetCustomJob ?nm], started = []\<rparr>)"
    using watch_iteration_raises [OF g1, where self = example_job and nm = ?nm and timeout = None and ?t0.0 = 0 and lst = JOB_STATE_RUNNING]
    by simp
  have n0: "JOB_STATE_UNSPECIFIED \<notin> set until_states_of_run"
    and n1: "JOB_STATE_RUNNING \<notin> set until_states_of_run"
    by (simp_all add: until_states_of_run_def)
  have "watch_job_run example_job failing_poll ?nm JOB_STATE_QUEUED until_states_of_run None world0
        = watch_loop example_job failing_poll ?nm until_states_of_run None 0
            (JOB_STATE_UNSPECIFIED, JOB_STATE_QUEUED, None) world0"
    by (simp add: watch_job_run_def world0_def)
  also have "\<dots> = watch_loop example_job failing_poll ?nm until_states_of_run None 0
            (JOB_STATE_RUNNING, JOB_STATE_RUNNING, Some (snapshot JOB_STATE_RUNNING [])) ?w1"
    by (rule watch_loop_next [OF n0 it0])
  also have "\<dots> = Some (Inl (RemoteError ''503 The service is currently unavailable.''),
                \<lparr>clock = 5, uuids_drawn = 1, polls = 2,
                 logged = [(INFO, ''VertexAICustomTrainingJob: container-f has new job state is now: running'')],
                 calls = [GetCustomJob ?nm, GetCustomJob ?nm], started = []\<rparr>)"
    by (rule watch_loop_raise [OF n1 it1])
  finally show ?thesis .
qed

text \<open>
  What the loop does with a poll. The call of \<^verbatim>\<open>get_custom_job\<close> stands in no
  \<^verbatim>\<open>try\<close>: a poll that raises ends the watch with that exception. A poll that shows
  no new state is logged at debug level and the loop goes on to the next pass. With a
  valid image reference, a poll interval that is not negative and
  \<^verbatim>\<open>JOB_STATE_UNSPECIFIED\<close> not awaited, the watch ends abnormally in two ways only: the
  deadline is exceeded, or the last poll raised.
\<close>

theorem watch_ends_abnormally_by_deadline_or_raising_poll:
  assumes "image_has_repo self" and "0 \<le> job_watch_poll_interval self"
      and "JOB_STATE_UNSPECIFIED \<notin> set until_states"
  shows "(\<forall>e w'. watch_job_run self ex nm cur until_states timeout w = Some (Inl e, w')
            \<longrightarrow> polls w < polls w'
              \<and> ((\<exists>T. timeout = Some T \<and> T < clock w' - clock w
                       \<and> e = RuntimeError_timed_out (clock w' - clock w))
                  \<or> (\<exists>s. snd (get_custom_job ex (polls w' - 1)) = Raises s
                          \<and> e = RemoteError s)))
       \<and> (\<forall>st lst jo d jr t0 wa.
             st \<notin> set until_states \<and> get_custom_job ex (polls wa) = (d, Returns jr)
             \<and> cj_state jr = lst
             \<and> \<not> (case timeout of None \<Rightarrow> False | Some t \<Rightarrow> clock wa + d - t0 > t)
            \<longrightarrow> watch_loop self ex nm until_states timeout t0 (st, lst, jo) wa
                = watch_loop self ex nm until_states timeout t0 (lst, lst, Some jr)
                    (wa\<lparr>clock := clock wa + d + job_watch_poll_interval self,
                        polls := Suc (polls wa),
                        calls := calls wa @ [GetCustomJob nm],
                        logged := logged wa
                                  @ [(DEBUG, log_prefix self ex @ '': Job not found.'')]\<rparr>))
       \<and> (\<forall>st lst jo d s t0 wa.
             st \<notin> set until_states \<and> get_custom_job ex (polls wa) = (d, Raises s)
            \<longrightarrow> watch_loop self ex nm until_states timeout t0 (st, lst, jo) wa
                = Some (Inl (RemoteError s),
                        wa\<lparr>clock := clock wa + d, polls := Suc (polls wa),
                           calls := calls wa @ [GetCustomJob nm]\<rparr>))"
proof (intro conjI allI impI)
  fix e w'
  assume r: "watch_job_run self ex nm cur until_states timeout w = Some (Inl e, w')"
  then have "watch_loop self ex nm until_states timeout (clock w)
               (JOB_STATE_UNSPECIFIED, cur, None) w = Some (Inl e, w')"
    by (simp add: watch_job_run_def)
  from watch_loop_abnormal [OF this] assms
  show "polls w < polls w'"
    and "(\<exists>T. timeout = Some T \<and> T < clock w' - clock w
              \<and> e = RuntimeError_timed_out (clock w' - clock w))
         \<or> (\<exists>s. snd (get_custom_job ex (polls w' - 1)) = Raises s \<and> e = RemoteError s)"
    by simp_all
next
  fix st lst jo d jr t0 and wa :: world
  assume a: "st \<notin> set until_states \<and> get_custom_job ex (polls wa) = (d, Returns jr)
             \<and> cj_state jr = lst
             \<and> \<not> (case timeout of None \<Rightarrow> False | Some t \<Rightarrow> clock wa + d - t0 > t)"
  then have g: "get_custom_job ex (polls wa) = (d, Returns jr)" and s: "cj_state jr = lst"
    and t: "\<not> (case timeout of None \<Rightarrow> False | Some t \<Rightarrow> clock wa + d - t0 > t)"
    and n: "st \<notin> set until_states"
    by simp_all
  show "watch_loop self ex nm until_states timeout t0 (st, lst, jo) wa
                = watch_loop self ex nm until_states timeout t0 (lst, lst, Some jr)
                    (wa\<lparr>clock := clock wa + d + job_watch_poll_interval self,
                        polls := Suc (polls wa),
                        calls := calls wa @ [GetCustomJob nm],
                        logged := logged wa
                                  @ [(DEBUG, log_prefix self ex @ '': Job not found.'')]\<rparr>)"
    by (rule watch_loop_next [OF n watch_iteration_same [OF g s t assms(2)]])
next
  fix st lst jo d s t0 and wa :: world
  assume a: "st \<notin> set until_states \<and> get_custom_job ex (polls wa) = (d, Raises s)"
  then have n: "st \<notin> set until_states" and g: "get_custom_job ex (polls wa) = (d, Raises s)"
    by simp_all
  show "watch_loop self ex nm until_states timeout t0 (st, lst, jo) wa
                = Some (Inl (RemoteError s),
                        wa\<lparr>clock := clock wa + d, polls := Suc (polls wa),
                           calls := calls wa @ [GetCustomJob nm]\<rparr>)"
    by (rule watch_loop_raise [OF n watch_iteration_raises [OF g]])
qed

theorem watch_ends_abnormally_by_deadline_or_raising_poll_witness:
  "image_has_repo example_job \<and> 0 \<le> job_watch_poll_interval example_job
   \<and> JOB_STATE_UNSPECIFIED \<notin> set until_states_of_run
   \<and> watch_job_run example_job failing_poll ''projects/proj/locations/us-east1/customJobs/1''
       JOB_STATE_QUEUED until_states_of_run None world0
     = Some (Inl (RemoteError ''503 The service is currently unavailable.''),
           \<lparr>clock = 5, uuids_drawn = 1, polls = 2,
            logged = [(INFO, ''VertexAICustomTrainingJob: container-f has new job state is now: running'')],
            calls = [GetCustomJob ''projects/proj/locations/us-east1/customJobs/1'',
                     GetCustomJob ''projects/proj/locations/us-east1/customJobs/1''],
            started = []\<rparr>)
   \<and> snd (get_custom_job failing_poll (2 - 1)) = Raises ''503 The service is currently unavailable.''
   \<and> watch_loop example_job failing_poll ''projects/proj/locations/us-east1/customJobs/1''
        until_states_of_run None 0 (JOB_STATE_UNSPECIFIED, JOB_STATE_RUNNING, None) world0
     = watch_loop example_job failing_poll ''projects/proj/locations/us-east1/customJobs/1''
        until_states_of_run None 0
        (JOB_STATE_RUNNING, JOB_STATE_RUNNING, Some (snapshot JOB_STATE_RUNNING []))
        \<lparr>clock = 5, uuids_drawn = 0, polls = 1,
         logged = [(DEBUG, ''VertexAICustomTrainingJob: Job not found.'')],
         calls = [GetCustomJob ''projects/proj/locations/us-east1/customJobs/1''],
         started = []\<rparr>"
proof -
  let ?nm = "''projects/proj/locations/us-east1/customJobs/1''"
  have i: "0 \<le> job_watch_poll_interval example_job"
    by (simp add: example_sel)
  note th = watch_ends_abnormally_by_deadline_or_raising_poll
              [OF example_image i unspecified_not_awaited,
               of failing_poll ?nm JOB_STATE_QUEUED None world0]
  have g0: "get_custom_job failing_poll (polls world0) = (0, Returns (snapshot JOB_STATE_RUNNING []))"
    by (simp add: failing_poll_def scripted_sel world0_def)
  from th have safety:
    "\<And>e w'. watch_job_run example_job failing_poll ?nm JOB_STATE_QUEUED until_states_of_run
               None world0 = Some (Inl e, w')
       \<Longrightarrow> (\<exists>T. None = Some T \<and> T < clock w' - clock world0
                \<and> e = RuntimeError_timed_out (clock w' - clock world0))
           \<or> (\<exists>s. snd (get_custom_job failing_poll (polls w' - 1)) = Raises s
                   \<and> e = RemoteError s)"
    by blast
  from safety [OF failing_poll_watch]
  have "snd (get_custom_job failing_poll (2 - 1)) = Raises ''503 The service is currently unavailable.''"
    by simp
  moreover
  from th have step:
    "\<And>st lst jo d jr t0 wa.
        st \<notin> set until_states_of_run \<and> get_custom_job failing_poll (polls wa) = (d, Returns jr)
        \<and> cj_state jr = lst
        \<and> \<not> (case None of None \<Rightarrow> False | Some t \<Rightarrow> clock wa + d - t0 > t)
       \<Longrightarrow> watch_loop example_job failing_poll ?nm until_states_of_run None t0 (st, lst, jo) wa
           = watch_loop example_job failing_poll ?nm until_states_of_run None t0 (lst, lst, Some jr)
               (wa\<lparr>clock := clock wa + d + job_watch_poll_interval example_job,
                   polls := Suc (polls wa),
                   calls := calls wa @ [GetCustomJob ?nm],
                   logged := logged wa
                             @ [(DEBUG, log_prefix example_job failing_poll @ '': Job not found.'')]\<rparr>)"
    by blast
  have "watch_loop example_job failing_poll ?nm until_states_of_run None 0
          (JOB_STATE_UNSPECIFIED, JOB_STATE_RUNNING, None) world0
        = watch_loop example_job failing_poll ?nm until_states_of_run None 0
           (JOB_STATE_RUNNING, JOB_STATE_RUNNING, Some (snapshot JOB_STATE_RUNNING []))
           (world0\<lparr>clock := clock world0 + 0 + job_watch_poll_interval example_job,
                   polls := Suc (polls world0),
                   calls := calls world0 @ [GetCustomJob ?nm],
                   logged := logged world0
                             @ [(DEBUG, log_prefix example_job failing_poll @ '': Job not found.'')]\<rparr>)"
    by (rule step) (simp add: g0 unspecified_not_awaited snapshot_def)
  ultimately show ?thesis
    using example_image i unspecified_not_awaited failing_poll_watch
    by (simp add: world0_def example_sel example_prefix)
qed

text \<open>
  Claim C1, on the code. The comment in the loop says that the job will intermittently
  not be described and that the watch then goes on to its deadline check, and the loop
  logs \<^verbatim>\<open>Job not found.\<close> at debug level; but both stand on the branch of a poll that
  returned with no new state, and the call of \<^verbatim>\<open>get_custom_job\<close> itself is not
  guarded. Here no deadline is set, the first poll shows the job running, the second poll
  raises, and the watch ends with that exception after two polls, although the third poll
  would have shown the job succeeded.
\<close>

theorem raising_poll_ends_the_watch:
  "watch_job_run example_job failing_poll ''projects/proj/locations/us-east1/customJobs/1''
     JOB_STATE_QUEUED until_states_of_run None world0
   = Some (Inl (RemoteError ''503 The service is currently unavailable.''),
           \<lparr>clock = 5, uuids_drawn = 1, polls = 2,
            logged = [(INFO, ''VertexAICustomTrainingJob: container-f has new job state is now: running'')],
            calls = [GetCustomJob ''projects/proj/locations/us-east1/customJobs/1'',
                     GetCustomJob ''projects/proj/locations/us-east1/customJobs/1''],
            started = []\<rparr>)"
  by (rule failing_poll_watch)

subsection \<open>The deadline\<close>









subsection \<open>The final snapshot and the result of a run\<close>

lemma watch_loop_result_state:
  assumes run: "watch_loop self ex nm until timeout t0 vars w = Some y"
  shows "(\<forall>jr. snd (snd vars) = Some jr \<longrightarrow> cj_state jr = fst vars)
     \<longrightarrow> (\<forall>fjr. fst y = Inr fjr \<longrightarrow> cj_state fjr \<in> set until)"
proof (rule watch_loop.raw_induct
    [where P = "\<lambda>self ex nm until timeout t0 vars w y.
       (\<forall>jr. snd (snd vars) = Some jr \<longrightarrow> cj_state jr = fst vars)
       \<longrightarrow> (\<forall>fjr. fst y = Inr fjr \<longrightarrow> cj_state fjr \<in> set until)",
     OF _ run], goal_cases)
  case (1 loop self ex nm until timeout t0 vars w y)
  note IH = "1"(1) and body = "1"(2)
  obtain st lst jo where vars: "vars = (st, lst, jo)" by (cases vars)
  show ?case
  proof (intro impI allI)
    fix fjr
    assume inv: "\<forall>jr. snd (snd vars) = Some jr \<longrightarrow> cj_state jr = fst vars"
      and yr: "fst y = Inr fjr"
    show "cj_state fjr \<in> set until"
    proof (cases "st \<in> set until")
      case True
      with body vars yr inv show ?thesis by (cases jo) auto
    next
      case False
      obtain r w1 where it: "watch_iteration self ex nm timeout t0 lst w = (r, w1)"
        by (cases "watch_iteration self ex nm timeout t0 lst w")
      show ?thesis
      proof (cases r)
        case (Inl e')
        with body vars False it yr show ?thesis by auto
      next
        case (Inr v)
        obtain st' lst' jr' where v: "v = (st', lst', jr')" by (cases v)
        have st': "st' = cj_state jr'"
          using it Inr v
          by (cases "get_custom_job ex (polls w)")
             (auto simp: watch_iteration_def Let_def
                   split: response.splits sum.splits prod.splits if_splits)
        from body vars False it Inr v
        have rec: "loop self ex nm until timeout t0 (st', lst', Some jr') w1 = Some y" by simp
        from IH [OF rec] st' yr show ?thesis by simp
      qed
    qed
  qed
qed

lemma watch_job_run_state:
  assumes "watch_job_run self ex nm cur until timeout w = Some (Inr fjr, w')"
  shows "cj_state fjr \<in> set until"
proof -
  from assms have "watch_loop self ex nm until timeout (clock w)
                     (JOB_STATE_UNSPECIFIED, cur, None) w = Some (Inr fjr, w')"
    by (simp add: watch_job_run_def)
  from watch_loop_result_state [OF this] show ?thesis by simp
qed

lemma watch_single_poll:
  assumes "get_custom_job ex (polls w) = (d, Returns fjr)"
      and "cj_state fjr \<in> set until" and "cj_state fjr \<noteq> cur"
      and "image_has_repo self" and "d \<le> T" and "0 \<le> job_watch_poll_interval self"
      and "JOB_STATE_UNSPECIFIED \<notin> set until"
  shows "\<exists>w'. watch_job_run self ex nm cur until (Some T) w = Some (Inr fjr, w')
            \<and> started w' = started w \<and> calls w' = calls w @ [GetCustomJob nm]
            \<and> polls w' = Suc (polls w)"
proof -
  have t: "\<not> (case Some T of None \<Rightarrow> False | Some t \<Rightarrow> clock w + d - clock w > t)"
    using assms(5) by simp
  note it = watch_iteration_change [OF assms(1,3,4) t assms(6), of nm]
  have "watch_job_run self ex nm cur until (Some T) w
        = watch_loop self ex nm until (Some T) (clock w) (JOB_STATE_UNSPECIFIED, cur, None) w"
    by (simp add: watch_job_run_def)
  also note watch_loop_next [OF assms(7) it]
  also note watch_loop_done [OF assms(2)]
  finally show ?thesis by simp
qed

lemma example_one_poll:
  assumes "st \<in> set until_states_of_run"
  shows "\<exists>spec jr w1 w2 w3.
      build_job_spec example_job (one_poll st msg) = Inr spec
    \<and> create_and_begin_job example_job (one_poll st msg) spec world0 = (Inr jr, w1)
    \<and> notify_started example_job (one_poll st msg) ts w1 = (Inr (), w2)
    \<and> watch_job_run example_job (one_poll st msg) (cj_name jr) (cj_state jr)
         until_states_of_run (Some (maximum_run_time example_job)) w2
       = Some (Inr (snapshot st msg), w3)
    \<and> calls w3 = [CreateCustomJob ''projects/proj/locations/us-east1''
                     (new_CustomJob ''container-f'' spec),
                   GetCustomJob ''projects/proj/locations/us-east1/customJobs/1'']
    \<and> started w3 = (if ts then [''container-ffff''] else [])"
proof -
  let ?ex = "one_poll st msg"
  obtain spec where b: "build_job_spec example_job ?ex = Inr spec"
    using build_job_spec_ok [OF example_identity, of ?ex] by blast
  let ?job = "new_CustomJob ''container-f'' spec"
  let ?jr = "?job\<lparr>cj_name := ''projects/proj/locations/us-east1/customJobs/1'',
                   cj_state := JOB_STATE_QUEUED\<rparr>"
  have cr: "create_custom_job ?ex
             (''projects/'' @ str_optional (project (gcp_credentials example_job))
              @ ''/locations/'' @ region example_job)
             (new_CustomJob (str_split CHR ''/'' (image example_job) ! 2 @ ''-''
                             @ uuid4_hex ?ex (uuids_drawn world0)) spec)
            = Returns ?jr"
    by (simp add: one_poll_def scripted_sel example_sel str_optional_def world0_def)
  from create_and_begin_job_ok [OF example_image example_sel(2) cr]
  obtain w1 where c: "create_and_begin_job example_job ?ex spec world0 = (Inr ?jr, w1)"
    and w1: "polls w1 = 0" "uuids_drawn w1 = 3" "started w1 = []"
            "calls w1 = [CreateCustomJob ''projects/proj/locations/us-east1'' ?job]"
    by (simp add: world0_def one_poll_def scripted_sel example_sel str_optional_def)
  have u: "uuid4_hex ?ex 3 = ''ffff''"
    by (simp add: one_poll_def scripted_sel numeral_3_eq_3)
  have nm: "str_split CHR ''/'' (image example_job) ! 2 @ ''-'' @ uuid4_hex ?ex (uuids_drawn w1)
            = ''container-ffff''"
    by (simp add: example_repo w1 u)
  have "\<exists>w2. notify_started example_job ?ex ts w1 = (Inr (), w2) \<and> polls w2 = 0
             \<and> calls w2 = calls w1 \<and> started w2 = (if ts then [''container-ffff''] else [])"
  proof (cases ts)
    case True
    then show ?thesis
      using notify_started_ok [OF example_image, of ?ex w1] by (simp add: example_repo u w1)
  next
    case False
    then show ?thesis
      using notify_started_off [of example_job ?ex w1] by (simp add: w1)
  qed
  then obtain w2 where n: "notify_started example_job ?ex ts w1 = (Inr (), w2)"
    and w2: "polls w2 = 0" "calls w2 = calls w1"
            "started w2 = (if ts then [''container-ffff''] else [])"
    by blast
  have g: "get_custom_job ?ex (polls w2) = (0, Returns (snapshot st msg))"
    by (simp add: w2 one_poll_def scripted_sel)
  have s1: "cj_state (snapshot st msg) \<in> set until_states_of_run"
    using assms by (simp add: snapshot_def)
  have s2: "cj_state (snapshot st msg) \<noteq> cj_state ?jr"
    using assms by (auto simp: snapshot_def until_states_of_run_def)
  have t: "(0::real) \<le> maximum_run_time example_job" and i: "0 \<le> job_watch_poll_interval example_job"
    by (simp_all add: example_sel)
  from watch_single_poll [OF g s1 s2 example_image t i unspecified_not_awaited, of "cj_name ?jr"]
  obtain w3 where wt: "watch_job_run example_job ?ex (cj_name ?jr) (cj_state ?jr)
         until_states_of_run (Some (maximum_run_time example_job)) w2
       = Some (Inr (snapshot st msg), w3)"
    and w3: "started w3 = started w2" "calls w3 = calls w2 @ [GetCustomJob (cj_name ?jr)]"
    by blast
  have cl: "calls w3 = [CreateCustomJob ''projects/proj/locations/us-east1'' ?job,
                        GetCustomJob ''projects/proj/locations/us-east1/customJobs/1'']"
    using w3 w2 w1 by simp
  have st: "started w3 = (if ts then [''container-ffff''] else [])"
    using w3 w2 by simp
  show ?thesis
    using b c n wt cl st
    apply -
    apply (rule exI [of _ spec], rule exI [of _ ?jr], rule exI [of _ w1], rule exI [of _ w2],
           rule exI [of _ w3])
    apply (intro conjI; assumption)
    done
qed

text \<open>
  Claim C2. When the watch of a run returns a final snapshot in state
  \<^verbatim>\<open>JOB_STATE_FAILED\<close>: with an error message that is not empty, \<^verbatim>\<open>run()\<close> raises
  the \<^verbatim>\<open>RuntimeError\<close> (the spec's \<^verbatim>\<open>RemoteExecutionError\<close>) whose message is the log
  prefix, a colon and that error message; with an empty error message, \<^verbatim>\<open>run()\<close>
  returns a result of status code 1.
\<close>

theorem run_on_failed_job:
  assumes "build_job_spec self ex = Inr spec"
      and "create_and_begin_job self ex spec w = (Inr jr, w1)"
      and "notify_started self ex task_status w1 = (Inr (), w2)"
      and "watch_job_run self ex (cj_name jr) (cj_state jr) until_states_of_run
             (Some (maximum_run_time self)) w2 = Some (Inr fjr, w3)"
      and "cj_state fjr = JOB_STATE_FAILED"
  shows "(cj_error_message fjr \<noteq> []
           \<longrightarrow> run self ex task_status w
                 = Some (Inl (RuntimeError (log_prefix self ex @ '': '' @ cj_error_message fjr)), w3)
               \<and> sublist (cj_error_message fjr) (log_prefix self ex @ '': '' @ cj_error_message fjr))
       \<and> (cj_error_message fjr = []
           \<longrightarrow> run self ex task_status w
                 = Some (Inr \<lparr>res_identifier = cj_display_name fjr, res_status_code = 1\<rparr>, w3))"
proof -
  have "sublist (cj_error_message fjr) (log_prefix self ex @ '': '' @ cj_error_message fjr)"
    by (metis append.right_neutral append_assoc sublist_appendI)
  then show ?thesis
    using run_after_watch [OF assms(1-4)] assms(5) by simp
qed

theorem run_on_failed_job_witness:
  "(\<exists>w'. run example_job (one_poll JOB_STATE_FAILED ''out of memory'') False world0
          = Some (Inl (RuntimeError ''VertexAICustomTrainingJob: out of memory''), w'))
   \<and> (\<exists>w'. run example_job (one_poll JOB_STATE_FAILED []) False world0
          = Some (Inr \<lparr>res_identifier = ''container-f'', res_status_code = 1\<rparr>, w'))"
proof -
  have f: "cj_state (snapshot JOB_STATE_FAILED msg) = JOB_STATE_FAILED" for msg
    by (simp add: snapshot_def)
  from example_one_poll [OF awaited_states(2), of "''out of memory''" False]
  obtain spec jr w1 w2 w3 where
      "build_job_spec example_job (one_poll JOB_STATE_FAILED ''out of memory'') = Inr spec"
      "create_and_begin_job example_job (one_poll JOB_STATE_FAILED ''out of memory'') spec world0
       = (Inr jr, w1)"
      "notify_started example_job (one_poll JOB_STATE_FAILED ''out of memory'') False w1 = (Inr (), w2)"
      "watch_job_run example_job (one_poll JOB_STATE_FAILED ''out of memory'') (cj_name jr)
         (cj_state jr) until_states_of_run (Some (maximum_run_time example_job)) w2
       = Some (Inr (snapshot JOB_STATE_FAILED ''out of memory''), w3)"
    by blast
  from run_on_failed_job [OF this f]
  have a: "\<exists>w'. run example_job (one_poll JOB_STATE_FAILED ''out of memory'') False world0
          = Some (Inl (RuntimeError ''VertexAICustomTrainingJob: out of memory''), w')"
    by (simp add: snapshot_def example_prefix)
  from example_one_poll [OF awaited_states(2), of "[]" False]
  obtain spec jr w1 w2 w3 where
      "build_job_spec example_job (one_poll JOB_STATE_FAILED []) = Inr spec"
      "create_and_begin_job example_job (one_poll JOB_STATE_FAILED []) spec world0 = (Inr jr, w1)"
      "notify_started example_job (one_poll JOB_STATE_FAILED []) False w1 = (Inr (), w2)"
      "watch_job_run example_job (one_poll JOB_STATE_FAILED []) (cj_name jr)
         (cj_state jr) until_states_of_run (Some (maximum_run_time example_job)) w2
       = Some (Inr (snapshot JOB_STATE_FAILED []), w3)"
    by blast
  from run_on_failed_job [OF this f]
  have "\<exists>w'. run example_job (one_poll JOB_STATE_FAILED []) False world0
          = Some (Inr \<lparr>res_identifier = ''container-f'', res_status_code = 1\<rparr>, w')"
    by (simp add: snapshot_def)
  with a show ?thesis by blast
qed

text \<open>
  Claim C10. Whatever the awaited state of the final snapshot, an error message that is
  not empty makes \<^verbatim>\<open>run()\<close> raise. So a \<^verbatim>\<open>run()\<close> that returns a result went through
  a submission and a watch whose final snapshot has an empty error message and one of the
  four awaited states, and the status code of the result is 0 exactly when that state is
  \<^verbatim>\<open>JOB_STATE_SUCCEEDED\<close>.
\<close>

theorem run_raises_on_any_error_message:
  "(\<forall>spec jr w1 w2 fjr w3.
       build_job_spec self ex = Inr spec
     \<and> create_and_begin_job self ex spec w = (Inr jr, w1)
     \<and> notify_started self ex task_status w1 = (Inr (), w2)
     \<and> watch_job_run self ex (cj_name jr) (cj_state jr) until_states_of_run
          (Some (maximum_run_time self)) w2 = Some (Inr fjr, w3)
     \<and> cj_error_message fjr \<noteq> []
     \<longrightarrow> run self ex task_status w
          = Some (Inl (RuntimeError (log_prefix self ex @ '': '' @ cj_error_message fjr)), w3))
   \<and> (\<forall>res w'. run self ex task_status w = Some (Inr res, w')
     \<longrightarrow> (\<exists>spec jr w1 w2 fjr.
            build_job_spec self ex = Inr spec
          \<and> create_and_begin_job self ex spec w = (Inr jr, w1)
          \<and> notify_started self ex task_status w1 = (Inr (), w2)
          \<and> watch_job_run self ex (cj_name jr) (cj_state jr) until_states_of_run
               (Some (maximum_run_time self)) w2 = Some (Inr fjr, w')
          \<and> cj_error_message fjr = []
          \<and> cj_state fjr \<in> {JOB_STATE_SUCCEEDED, JOB_STATE_FAILED, JOB_STATE_CANCELLED,
                              JOB_STATE_EXPIRED}
          \<and> res_identifier res = cj_display_name fjr
          \<and> (res_status_code res = 0 \<longleftrightarrow> cj_state fjr = JOB_STATE_SUCCEEDED)
          \<and> (res_status_code res = 0 \<or> res_status_code res = 1)))"
proof (intro conjI allI impI)
  fix spec jr w1 w2 fjr w3
  assume "build_job_spec self ex = Inr spec
     \<and> create_and_begin_job self ex spec w = (Inr jr, w1)
     \<and> notify_started self ex task_status w1 = (Inr (), w2)
     \<and> watch_job_run self ex (cj_name jr) (cj_state jr) until_states_of_run
          (Some (maximum_run_time self)) w2 = Some (Inr fjr, w3)
     \<and> cj_error_message fjr \<noteq> []"
  then show "run self ex task_status w
          = Some (Inl (RuntimeError (log_prefix self ex @ '': '' @ cj_error_message fjr)), w3)"
    using run_after_watch [of self ex spec w jr w1 task_status w2 fjr w3] by simp
next
  fix res w'
  assume "run self ex task_status w = Some (Inr res, w')"
  from run_returns [OF this]
  obtain spec jr w1 w2 fjr where
      b: "build_job_spec self ex = Inr spec"
    and c: "create_and_begin_job self ex spec w = (Inr jr, w1)"
    and n: "notify_started self ex task_status w1 = (Inr (), w2)"
    and wt: "watch_job_run self ex (cj_name jr) (cj_state jr) until_states_of_run
               (Some (maximum_run_time self)) w2 = Some (Inr fjr, w')"
    and e: "cj_error_message fjr = []"
    and r: "res = \<lparr>res_identifier = cj_display_name fjr,
                   res_status_code = (if cj_state fjr = JOB_STATE_SUCCEEDED then 0 else 1)\<rparr>"
    by blast
  from watch_job_run_state [OF wt]
  have t: "cj_state fjr \<in> {JOB_STATE_SUCCEEDED, JOB_STATE_FAILED, JOB_STATE_CANCELLED,
                            JOB_STATE_EXPIRED}"
    by (simp add: until_states_of_run_def)
  have r1: "res_identifier res = cj_display_name fjr"
    and r2: "res_status_code res = 0 \<longleftrightarrow> cj_state fjr = JOB_STATE_SUCCEEDED"
    and r3: "res_status_code res = 0 \<or> res_status_code res = 1"
    using r by simp_all
  show "\<exists>spec jr w1 w2 fjr.
            build_job_spec self ex = Inr spec
          \<and> create_and_begin_job self ex spec w = (Inr jr, w1)
          \<and> notify_started self ex task_status w1 = (Inr (), w2)
          \<and> watch_job_run self ex (cj_name jr) (cj_state jr) until_states_of_run
               (Some (maximum_run_time self)) w2 = Some (Inr fjr, w')
          \<and> cj_error_message fjr = []
          \<and> cj_state fjr \<in> {JOB_STATE_SUCCEEDED, JOB_STATE_FAILED, JOB_STATE_CANCELLED,
                              JOB_STATE_EXPIRED}
          \<and> res_identifier res = cj_display_name fjr
          \<and> (res_status_code res = 0 \<longleftrightarrow> cj_state fjr = JOB_STATE_SUCCEEDED)
          \<and> (res_status_code res = 0 \<or> res_status_code res = 1)"
    using b c n wt e t r1 r2 r3
    apply -
    apply (rule exI [of _ spec], rule exI [of _ jr], rule exI [of _ w1], rule exI [of _ w2],
           rule exI [of _ fjr])
    apply (intro conjI; assumption)
    done
qed

theorem run_raises_on_any_error_message_witness:
  "(\<exists>w'. run example_job (one_poll JOB_STATE_SUCCEEDED ''quota exceeded'') False world0
          = Some (Inl (RuntimeError ''VertexAICustomTrainingJob: quota exceeded''), w'))
   \<and> (\<exists>res w' (fjr :: CustomJob).
          run example_job (one_poll JOB_STATE_CANCELLED []) False world0
                     = Some (Inr res, w')
        \<and> cj_error_message fjr = [] \<and> res_identifier res = cj_display_name fjr
        \<and> cj_state fjr \<in> {JOB_STATE_SUCCEEDED, JOB_STATE_FAILED, JOB_STATE_CANCELLED,
                            JOB_STATE_EXPIRED}
        \<and> res_status_code res = 1)"
proof -
  let ?e1 = "one_poll JOB_STATE_SUCCEEDED ''quota exceeded''"
  let ?e2 = "one_poll JOB_STATE_CANCELLED []"
  note th1 = run_raises_on_any_error_message [of example_job ?e1 world0 False]
  note th2 = run_raises_on_any_error_message [of example_job ?e2 world0 False]
  from example_one_poll [OF awaited_states(1), of "''quota exceeded''" False]
  obtain spec jr w1 w2 w3 where h:
      "build_job_spec example_job ?e1 = Inr spec
     \<and> create_and_begin_job example_job ?e1 spec world0 = (Inr jr, w1)
     \<and> notify_started example_job ?e1 False w1 = (Inr (), w2)
     \<and> watch_job_run example_job ?e1 (cj_name jr) (cj_state jr) until_states_of_run
          (Some (maximum_run_time example_job)) w2
        = Some (Inr (snapshot JOB_STATE_SUCCEEDED ''quota exceeded''), w3)"
    by blast
  have ne: "cj_error_message (snapshot JOB_STATE_SUCCEEDED ''quota exceeded'') \<noteq> []"
    by (simp add: snapshot_def)
  from th1 [THEN conjunct1, rule_format, OF conjI [OF h [THEN conjunct1]
        conjI [OF h [THEN conjunct2, THEN conjunct1]
        conjI [OF h [THEN conjunct2, THEN conjunct2, THEN conjunct1]
        conjI [OF h [THEN conjunct2, THEN conjunct2, THEN conjunct2] ne]]]]]
  have a: "\<exists>w'. run example_job ?e1 False world0
          = Some (Inl (RuntimeError ''VertexAICustomTrainingJob: quota exceeded''), w')"
    by (simp add: snapshot_def example_prefix)
  from example_one_poll [OF awaited_states(3), of "[]" False]
  obtain spec jr w1 w2 w3 where
      "build_job_spec example_job ?e2 = Inr spec"
      "create_and_begin_job example_job ?e2 spec world0 = (Inr jr, w1)"
      "notify_started example_job ?e2 False w1 = (Inr (), w2)"
      "watch_job_run example_job ?e2 (cj_name jr) (cj_state jr) until_states_of_run
          (Some (maximum_run_time example_job)) w2
        = Some (Inr (snapshot JOB_STATE_CANCELLED []), w3)"
    by blast
  from run_after_watch [OF this]
  have r: "run example_job ?e2 False world0
           = Some (Inr \<lparr>res_identifier = ''container-f'', res_status_code = 1\<rparr>, w3)"
    by (simp add: snapshot_def)
  have "\<exists>fjr :: CustomJob. cj_error_message fjr = []
           \<and> res_identifier \<lparr>res_identifier = ''container-f'', res_status_code = 1\<rparr>
             = cj_display_name fjr
           \<and> cj_state fjr \<in> {JOB_STATE_SUCCEEDED, JOB_STATE_FAILED, JOB_STATE_CANCELLED,
                               JOB_STATE_EXPIRED}"
    using th2 [THEN conjunct2, rule_format, OF r]
    apply (elim exE conjE)
    subgoal for spec jr w1 w2 fjr
      apply (rule exI [of _ fjr])
      apply (intro conjI; assumption)
      done
    done
  then obtain fjr :: CustomJob where f: "cj_error_message fjr = []"
      "res_identifier \<lparr>res_identifier = ''container-f'', res_status_code = 1\<rparr>
       = cj_display_name fjr"
      "cj_state fjr \<in> {JOB_STATE_SUCCEEDED, JOB_STATE_FAILED, JOB_STATE_CANCELLED,
                        JOB_STATE_EXPIRED}"
    by blast
  have one: "res_status_code \<lparr>res_identifier = ''container-f'', res_status_code = 1\<rparr> = 1"
    by simp
  have "\<exists>res w' (fjr :: CustomJob). run example_job ?e2 False world0 = Some (Inr res, w')
        \<and> cj_error_message fjr = [] \<and> res_identifier res = cj_display_name fjr
        \<and> cj_state fjr \<in> {JOB_STATE_SUCCEEDED, JOB_STATE_FAILED, JOB_STATE_CANCELLED,
                            JOB_STATE_EXPIRED}
        \<and> res_status_code res = 1"
    using r f one
    apply -
    apply (rule exI [of _ "\<lparr>res_identifier = ''container-f'', res_status_code = 1\<rparr>"],
           rule exI [of _ w3], rule exI [of _ fjr])
    apply (intro conjI; assumption)
    done
  with a show ?thesis by (rule conjI)
qed

subsection \<open>State transitions in the log\<close>

text \<open>
  Claim C6. A submission that comes back queued, then four polls that show the job queued,
  queued, running and succeeded (the last one with no error message), all within the
  deadline: \<^verbatim>\<open>run()\<close> returns the status code 0 after four polls. After the two lines
  of the submission, the log has four lines of the watch loop: two at debug level for the
  polls without a new state, and two at info level, one for the change to running and
  one for the change to succeeded.
\<close>

theorem run_logs_each_transition_once:
  assumes "py_or (service_account self) (service_account_email (gcp_credentials self)) = Some sa"
      and "image_has_repo self" and "command self = Some cmd"
      and "0 \<le> job_watch_poll_interval self"
      and "\<forall>parent job. \<exists>jr. create_custom_job ex parent job = Returns jr
                             \<and> cj_state jr = JOB_STATE_QUEUED"
      and "get_custom_job ex (polls w) = (d0, Returns s0)" and "cj_state s0 = JOB_STATE_QUEUED"
      and "get_custom_job ex (polls w + 1) = (d1, Returns s1)" and "cj_state s1 = JOB_STATE_QUEUED"
      and "get_custom_job ex (polls w + 2) = (d2, Returns s2)" and "cj_state s2 = JOB_STATE_RUNNING"
      and "get_custom_job ex (polls w + 3) = (d3, Returns s3)"
      and "cj_state s3 = JOB_STATE_SUCCEEDED" and "cj_error_message s3 = []"
      and "0 \<le> d0" and "0 \<le> d1" and "0 \<le> d2" and "0 \<le> d3"
      and "d0 + d1 + d2 + d3 + 3 * job_watch_poll_interval self \<le> maximum_run_time self"
  shows "\<exists>w' l1 l2.
           run self ex task_status w
             = Some (Inr \<lparr>res_identifier = cj_display_name s3, res_status_code = 0\<rparr>, w')
         \<and> polls w' = polls w + 4
         \<and> logged w' = logged w @
             [(INFO, l1), (INFO, l2),
              (DEBUG, log_prefix self ex @ '': Job not found.''),
              (DEBUG, log_prefix self ex @ '': Job not found.''),
              (INFO, log_prefix self ex @ '': '' @ str_split CHR ''/'' (image self) ! 2 @ ''-''
                     @ uuid4_hex ex (uuids_drawn w + (if task_status then 4 else 3))
                     @ '' has new job state is now: running''),
              (INFO, log_prefix self ex @ '': '' @ str_split CHR ''/'' (image self) ! 2 @ ''-''
                     @ uuid4_hex ex (uuids_drawn w + (if task_status then 5 else 4))
                     @ '' has new job state is now: succeeded'')]
         \<and> length (filter (\<lambda>(lvl, m). lvl = INFO) (drop (length (logged w) + 2) (logged w'))) = 2"
proof -
  let ?i = "job_watch_poll_interval self"
  let ?T = "maximum_run_time self"
  let ?p = "log_prefix self ex"
  let ?repo = "str_split CHR ''/'' (image self) ! 2"
  let ?k = "uuids_drawn w + (if task_status then 4 else 3)"
  obtain spec where b: "build_job_spec self ex = Inr spec"
    using build_job_spec_ok [OF assms(1), of ex] by blast
  from assms(5) obtain jr where
    cr: "create_custom_job ex
           (''projects/'' @ str_optional (project (gcp_credentials self)) @ ''/locations/''
            @ region self)
           (new_CustomJob (?repo @ ''-'' @ uuid4_hex ex (uuids_drawn w)) spec) = Returns jr"
    and q: "cj_state jr = JOB_STATE_QUEUED"
    by blast
  from create_and_begin_job_ok [OF assms(2,3) cr]
  obtain w1 l1 l2 where c: "create_and_begin_job self ex spec w = (Inr jr, w1)"
    and w1: "clock w1 = clock w" "polls w1 = polls w" "uuids_drawn w1 = uuids_drawn w + 3"
            "logged w1 = logged w @ [(INFO, l1), (INFO, l2)]"
    by simp
  from notify_started_fields [OF assms(2), of ex task_status w1]
  obtain w2 where n: "notify_started self ex task_status w1 = (Inr (), w2)"
    and w2: "clock w2 = clock w1" "polls w2 = polls w1" "logged w2 = logged w1"
            "uuids_drawn w2 = uuids_drawn w1 + (if task_status then 1 else 0)"
    by blast
  let ?t0 = "clock w2"
  have g0: "get_custom_job ex (polls w2) = (d0, Returns s0)"
    using assms(6) w1 w2 by simp
  have t0: "\<not> (case Some ?T of None \<Rightarrow> False | Some t \<Rightarrow> clock w2 + d0 - ?t0 > t)"
    using assms(4,15-19) by simp
  from watch_iteration_same_fields [OF g0 assms(7) t0 assms(4), of "cj_name jr"]
  obtain w3 where i0: "watch_iteration self ex (cj_name jr) (Some ?T) ?t0 JOB_STATE_QUEUED w2
                         = (Inr (JOB_STATE_QUEUED, JOB_STATE_QUEUED, s0), w3)"
    and w3: "clock w3 = clock w2 + d0 + ?i" "polls w3 = Suc (polls w2)"
            "uuids_drawn w3 = uuids_drawn w2"
            "logged w3 = logged w2 @ [(DEBUG, ?p @ '': Job not found.'')]"
    by blast
  have p3: "polls w3 = polls w + 1"
    using w1 w2 w3 by simp
  have g1: "get_custom_job ex (polls w3) = (d1, Returns s1)"
    unfolding p3 by (rule assms(8))
  have t1: "\<not> (case Some ?T of None \<Rightarrow> False | Some t \<Rightarrow> clock w3 + d1 - ?t0 > t)"
    using assms(4,15-19) w3 by simp
  from watch_iteration_same_fields [OF g1 assms(9) t1 assms(4), of "cj_name jr"]
  obtain w4 where i1: "watch_iteration self ex (cj_name jr) (Some ?T) ?t0 JOB_STATE_QUEUED w3
                         = (Inr (JOB_STATE_QUEUED, JOB_STATE_QUEUED, s1), w4)"
    and w4: "clock w4 = clock w3 + d1 + ?i" "polls w4 = Suc (polls w3)"
            "uuids_drawn w4 = uuids_drawn w3"
            "logged w4 = logged w3 @ [(DEBUG, ?p @ '': Job not found.'')]"
    by blast
  have p4: "polls w4 = polls w + 2"
    using w1 w2 w3 w4 by simp
  have g2: "get_custom_job ex (polls w4) = (d2, Returns s2)"
    unfolding p4 by (rule assms(10))
  have t2: "\<not> (case Some ?T of None \<Rightarrow> False | Some t \<Rightarrow> clock w4 + d2 - ?t0 > t)"
    using assms(4,15-19) w3 w4 by simp
  have ch2: "cj_state s2 \<noteq> JOB_STATE_QUEUED" using assms(11) by simp
  from watch_iteration_change_fields [OF g2 ch2 assms(2) t2 assms(4), of "cj_name jr"]
  obtain w5 where i2: "watch_iteration self ex (cj_name jr) (Some ?T) ?t0 JOB_STATE_QUEUED w4
                         = (Inr (JOB_STATE_RUNNING, JOB_STATE_RUNNING, s2), w5)"
    and w5: "clock w5 = clock w4 + d2 + ?i" "polls w5 = Suc (polls w4)"
            "uuids_drawn w5 = Suc (uuids_drawn w4)"
            "logged w5 = logged w4 @ [(INFO, ?p @ '': '' @ (?repo @ ''-''
                            @ uuid4_hex ex (uuids_drawn w4))
                            @ '' has new '' @ state_label JOB_STATE_RUNNING)]"
    using assms(11) by auto
  have p5: "polls w5 = polls w + 3"
    using w1 w2 w3 w4 w5 by simp
  have g3: "get_custom_job ex (polls w5) = (d3, Returns s3)"
    unfolding p5 by (rule assms(12))
  have t3: "\<not> (case Some ?T of None \<Rightarrow> False | Some t \<Rightarrow> clock w5 + d3 - ?t0 > t)"
    using assms(4,15-19) w3 w4 w5 by simp
  have ch3: "cj_state s3 \<noteq> JOB_STATE_RUNNING" using assms(13) by simp
  from watch_iteration_change_fields [OF g3 ch3 assms(2) t3 assms(4), of "cj_name jr"]
  obtain w6 where i3: "watch_iteration self ex (cj_name jr) (Some ?T) ?t0 JOB_STATE_RUNNING w5
                         = (Inr (JOB_STATE_SUCCEEDED, JOB_STATE_SUCCEEDED, s3), w6)"
    and w6: "polls w6 = Suc (polls w5)"
            "logged w6 = logged w5 @ [(INFO, ?p @ '': '' @ (?repo @ ''-''
                            @ uuid4_hex ex (uuids_drawn w5))
                            @ '' has new '' @ state_label JOB_STATE_SUCCEEDED)]"
    using assms(13) by auto
  have nu: "JOB_STATE_UNSPECIFIED \<notin> set until_states_of_run"
    and nq: "JOB_STATE_QUEUED \<notin> set until_states_of_run"
    and nr: "JOB_STATE_RUNNING \<notin> set until_states_of_run"
    and ys: "JOB_STATE_SUCCEEDED \<in> set until_states_of_run"
    by (simp_all add: until_states_of_run_def)
  have "watch_job_run self ex (cj_name jr) (cj_state jr) until_states_of_run (Some ?T) w2
        = watch_loop self ex (cj_name jr) until_states_of_run (Some ?T) ?t0
            (JOB_STATE_UNSPECIFIED, JOB_STATE_QUEUED, None) w2"
    by (simp add: watch_job_run_def q)
  also have "\<dots> = watch_loop self ex (cj_name jr) until_states_of_run (Some ?T) ?t0
            (JOB_STATE_QUEUED, JOB_STATE_QUEUED, Some s0) w3"
    by (rule watch_loop_next [OF nu i0])
  also have "\<dots> = watch_loop self ex (cj_name jr) until_states_of_run (Some ?T) ?t0
            (JOB_STATE_QUEUED, JOB_STATE_QUEUED, Some s1) w4"
    by (rule watch_loop_next [OF nq i1])
  also have "\<dots> = watch_loop self ex (cj_name jr) until_states_of_run (Some ?T) ?t0
            (JOB_STATE_RUNNING, JOB_STATE_RUNNING, Some s2) w5"
    by (rule watch_loop_next [OF nq i2])
  also have "\<dots> = watch_loop self ex (cj_name jr) until_states_of_run (Some ?T) ?t0
            (JOB_STATE_SUCCEEDED, JOB_STATE_SUCCEEDED, Some s3) w6"
    by (rule watch_loop_next [OF nr i3])
  also have "\<dots> = Some (Inr s3, w6)"
    by (rule watch_loop_done [OF ys])
  finally have wt: "watch_job_run self ex (cj_name jr) (cj_state jr) until_states_of_run
                      (Some ?T) w2 = Some (Inr s3, w6)" .
  have r: "run self ex task_status w
           = Some (Inr \<lparr>res_identifier = cj_display_name s3, res_status_code = 0\<rparr>, w6)"
    using run_after_watch [OF b c n wt] assms(13,14) by simp
  have p: "polls w6 = polls w + 4"
    using p5 w6 by simp
  have u4: "uuids_drawn w4 = ?k" and u5: "uuids_drawn w5 = uuids_drawn w + (if task_status then 5 else 4)"
    using w1 w2 w3 w4 w5 by simp_all
  have l: "logged w6 = logged w @
             [(INFO, l1), (INFO, l2),
              (DEBUG, ?p @ '': Job not found.''),
              (DEBUG, ?p @ '': Job not found.''),
              (INFO, ?p @ '': '' @ ?repo @ ''-'' @ uuid4_hex ex ?k
                     @ '' has new job state is now: running''),
              (INFO, ?p @ '': '' @ ?repo @ ''-''
                     @ uuid4_hex ex (uuids_drawn w + (if task_status then 5 else 4))
                     @ '' has new job state is now: succeeded'')]"
    using w1 w2 w3 w4 w5 w6 u4 u5 by (simp add: label_running label_succeeded)
  have f: "length (filter (\<lambda>(lvl, m). lvl = INFO) (drop (length (logged w) + 2) (logged w6))) = 2"
    by (simp add: l)
  show ?thesis
    using r p l f
    apply -
    apply (rule exI [of _ w6], rule exI [of _ l1], rule exI [of _ l2])
    apply (intro conjI; assumption)
    done
qed

theorem run_logs_each_transition_once_witness:
  "\<exists>w'. run example_job four_polls False world0
          = Some (Inr \<lparr>res_identifier = ''container-f'', res_status_code = 0\<rparr>, w')
     \<and> polls w' = 4
     \<and> drop 2 (logged w') =
         [(DEBUG, ''VertexAICustomTrainingJob: Job not found.''),
          (DEBUG, ''VertexAICustomTrainingJob: Job not found.''),
          (INFO, ''VertexAICustomTrainingJob: container-ffff has new job state is now: running''),
          (INFO, ''VertexAICustomTrainingJob: container-fffff has new job state is now: succeeded'')]"
proof -
  have i: "0 \<le> job_watch_poll_interval example_job"
    by (simp add: example_sel)
  have cr: "\<forall>parent job. \<exists>jr. create_custom_job four_polls parent job = Returns jr
                             \<and> cj_state jr = JOB_STATE_QUEUED"
    by (simp add: four_polls_def scripted_sel)
  have s: "cj_state (snapshot JOB_STATE_QUEUED []) = JOB_STATE_QUEUED"
          "cj_state (snapshot JOB_STATE_RUNNING []) = JOB_STATE_RUNNING"
          "cj_state (snapshot JOB_STATE_SUCCEEDED []) = JOB_STATE_SUCCEEDED"
          "cj_error_message (snapshot JOB_STATE_SUCCEEDED []) = []"
    by (simp_all add: snapshot_def)
  have z: "(0::real) \<le> 0" by simp
  have t: "(0::real) + 0 + 0 + 0 + 3 * job_watch_poll_interval example_job
           \<le> maximum_run_time example_job"
    by (simp add: example_sel)
  from run_logs_each_transition_once
         [OF example_identity example_image example_sel(2) i cr
             four_polls_sel(1) s(1) four_polls_sel(2) s(1) four_polls_sel(3) s(2)
             four_polls_sel(4) s(3) s(4) z z z z t, of False]
  obtain w' l1 l2 where
      r: "run example_job four_polls False world0
            = Some (Inr \<lparr>res_identifier = cj_display_name (snapshot JOB_STATE_SUCCEEDED []),
                         res_status_code = 0\<rparr>, w')"
    and p: "polls w' = polls world0 + 4"
    and l: "logged w' = logged world0 @
             [(INFO, l1), (INFO, l2),
              (DEBUG, log_prefix example_job four_polls @ '': Job not found.''),
              (DEBUG, log_prefix example_job four_polls @ '': Job not found.''),
              (INFO, log_prefix example_job four_polls @ '': ''
                     @ str_split CHR ''/'' (image example_job) ! 2 @ ''-''
                     @ uuid4_hex four_polls (uuids_drawn world0 + (if False then 4 else 3))
                     @ '' has new job state is now: running''),
              (INFO, log_prefix example_job four_polls @ '': ''
                     @ str_split CHR ''/'' (image example_job) ! 2 @ ''-''
                     @ uuid4_hex four_polls (uuids_drawn world0 + (if False then 5 else 4))
                     @ '' has new job state is now: succeeded'')]"
    by blast
  have "drop 2 (logged w') =
         [(DEBUG, ''VertexAICustomTrainingJob: Job not found.''),
          (DEBUG, ''VertexAICustomTrainingJob: Job not found.''),
          (INFO, ''VertexAICustomTrainingJob: container-ffff has new job state is now: running''),
          (INFO, ''VertexAICustomTrainingJob: container-fffff has new job state is now: succeeded'')]"
    by (simp add: l world0_def example_prefix example_repo four_polls_sel)
  moreover have "polls w' = 4" using p by (simp add: world0_def)
  moreover have "run example_job four_polls False world0
          = Some (Inr \<lparr>res_identifier = ''container-f'', res_status_code = 0\<rparr>, w')"
    using r by (simp add: snapshot_def)
  ultimately show ?thesis by blast
qed

subsection \<open>The name handed to the started-callback\<close>

text \<open>
  Claim C8, on the code. With a \<^verbatim>\<open>TaskStatus\<close> given, \<^verbatim>\<open>started\<close> is called once,
  after the submission and before the watch; but \<^verbatim>\<open>job_name\<close> is a property that draws
  a new identifier on every read, and \<^verbatim>\<open>run\<close> reads it again for the call. Here the
  job is submitted under the display name \<^verbatim>\<open>container-f\<close> (the first draw), the result
  carries that name, and \<^verbatim>\<open>started\<close> is given \<^verbatim>\<open>container-ffff\<close> (the fourth draw,
  after the two draws of the log lines).
\<close>

theorem started_is_given_a_newly_drawn_name:
  "\<exists>spec w'. run example_job (one_poll JOB_STATE_SUCCEEDED []) True world0
               = Some (Inr \<lparr>res_identifier = ''container-f'', res_status_code = 0\<rparr>, w')
     \<and> calls w' = [CreateCustomJob ''projects/proj/locations/us-east1''
                      (new_CustomJob ''container-f'' spec),
                    GetCustomJob ''projects/proj/locations/us-east1/customJobs/1'']
     \<and> started w' = [''container-ffff'']"
proof -
  let ?ex = "one_poll JOB_STATE_SUCCEEDED []"
  from example_one_poll [OF awaited_states(1), of "[]" True]
  obtain spec jr w1 w2 w3 where
      h: "build_job_spec example_job ?ex = Inr spec"
      "create_and_begin_job example_job ?ex spec world0 = (Inr jr, w1)"
      "notify_started example_job ?ex True w1 = (Inr (), w2)"
      "watch_job_run example_job ?ex (cj_name jr) (cj_state jr) until_states_of_run
          (Some (maximum_run_time example_job)) w2
        = Some (Inr (snapshot JOB_STATE_SUCCEEDED []), w3)"
    and cl: "calls w3 = [CreateCustomJob ''projects/proj/locations/us-east1''
                     (new_CustomJob ''container-f'' spec),
                   GetCustomJob ''projects/proj/locations/us-east1/customJobs/1'']"
    and st: "started w3 = (if True then [''container-ffff''] else [])"
    by blast
  from run_after_watch [OF h]
  have "run example_job ?ex True world0
        = Some (Inr \<lparr>res_identifier = ''container-f'', res_status_code = 0\<rparr>, w3)"
    by (simp add: snapshot_def)
  with cl st show ?thesis by auto
qed

end
